theory Spec2Isabelle
  imports Complex_Main
begin

section \<open>Floating-point numbers\<close>

text \<open>
  A floating-point value is a finite real, an infinity or NaN; the two zeros are not
  told apart. Rounding is to the nearest value of the format, ties to even: with
  \<open>p\<close> bits of precision and exponents from \<open>emin\<close> to \<open>emax\<close>, a magnitude
  \<open>m\<close> with \<open>2 ^ e \<le> m < 2 ^ (e + 1)\<close> is rounded to a multiple of
  \<open>2 ^ (e - p + 1)\<close>, below \<open>2 ^ emin\<close> to a multiple of \<open>2 ^ (emin - p + 1)\<close>,
  and a result of magnitude \<open>2 ^ (emax + 1)\<close> or more is an infinity.
\<close>

datatype fval = Finite real | PosInf | NegInf | NaN

definition rne :: "real \<Rightarrow> int" where
  "rne y = (let f = \<lfloor>y\<rfloor>; d = y - of_int f
            in if d < 1/2 then f else if 1/2 < d then f + 1
               else if even f then f else f + 1)"

fun search_up :: "nat \<Rightarrow> int \<Rightarrow> real \<Rightarrow> int" where
  "search_up 0 e m = e"
| "search_up (Suc n) e m = (if m < 2 powi (e + 1) then e else search_up n (e + 1) m)"

fun search_down :: "nat \<Rightarrow> int \<Rightarrow> real \<Rightarrow> int" where
  "search_down 0 e m = e"
| "search_down (Suc n) e m = (if 2 powi e \<le> m then e else search_down n (e - 1) m)"

definition expo :: "int \<Rightarrow> int \<Rightarrow> real \<Rightarrow> int" where
  "expo emin emax m =
     (if 1 \<le> m then search_up (nat emax) 0 m else search_down (nat (- 1 - emin)) (- 1) m)"

definition rmag :: "nat \<Rightarrow> int \<Rightarrow> int \<Rightarrow> real \<Rightarrow> real" where
  "rmag p emin emax m =
     (let q = 2 powi (expo emin emax m - int p + 1) in of_int (rne (m / q)) * q)"

definition round_to :: "nat \<Rightarrow> int \<Rightarrow> int \<Rightarrow> real \<Rightarrow> fval" where
  "round_to p emin emax x =
     (let y = rmag p emin emax \<bar>x\<bar>
      in if 2 powi (emax + 1) \<le> y then (if 0 \<le> x then PosInf else NegInf)
         else Finite (if 0 \<le> x then y else - y))"

definition round32 :: "real \<Rightarrow> fval" where
  "round32 = round_to 24 (- 126) 127"

definition round64 :: "real \<Rightarrow> fval" where
  "round64 = round_to 53 (- 1022) 1023"

text \<open>Conversion of a value to a format, and the comparison \<open>\<le>\<close>, false on NaN.\<close>

fun cast :: "(real \<Rightarrow> fval) \<Rightarrow> fval \<Rightarrow> fval" where
  "cast rnd (Finite x) = rnd x"
| "cast rnd v = v"

fun fle :: "fval \<Rightarrow> fval \<Rightarrow> bool" where
  "fle NaN y = False"
| "fle x NaN = False"
| "fle NegInf y = True"
| "fle x PosInf = True"
| "fle (Finite a) (Finite b) = (a \<le> b)"
| "fle x y = False"

text \<open>
  The arithmetic of the format whose rounding is \<open>rnd\<close>: the exact result, rounded.
  A division by zero does not raise; it yields an infinity or NaN.
\<close>

fun fadd :: "(real \<Rightarrow> fval) \<Rightarrow> fval \<Rightarrow> fval \<Rightarrow> fval" where
  "fadd rnd NaN y = NaN"
| "fadd rnd x NaN = NaN"
| "fadd rnd PosInf NegInf = NaN"
| "fadd rnd NegInf PosInf = NaN"
| "fadd rnd PosInf y = PosInf"
| "fadd rnd NegInf y = NegInf"
| "fadd rnd x PosInf = PosInf"
| "fadd rnd x NegInf = NegInf"
| "fadd rnd (Finite a) (Finite b) = rnd (a + b)"

fun fneg :: "fval \<Rightarrow> fval" where
  "fneg (Finite a) = Finite (- a)"
| "fneg PosInf = NegInf"
| "fneg NegInf = PosInf"
| "fneg NaN = NaN"

definition fsub :: "(real \<Rightarrow> fval) \<Rightarrow> fval \<Rightarrow> fval \<Rightarrow> fval" where
  "fsub rnd x y = fadd rnd x (fneg y)"

fun fmul :: "(real \<Rightarrow> fval) \<Rightarrow> fval \<Rightarrow> fval \<Rightarrow> fval" where
  "fmul rnd NaN y = NaN"
| "fmul rnd x NaN = NaN"
| "fmul rnd (Finite a) (Finite b) = rnd (a * b)"
| "fmul rnd (Finite a) y = (if a = 0 then NaN else if 0 < a then y else fneg y)"
| "fmul rnd x (Finite b) = (if b = 0 then NaN else if 0 < b then x else fneg x)"
| "fmul rnd x y = (if x = y then PosInf else NegInf)"

fun fdiv :: "(real \<Rightarrow> fval) \<Rightarrow> fval \<Rightarrow> fval \<Rightarrow> fval" where
  "fdiv rnd NaN y = NaN"
| "fdiv rnd x NaN = NaN"
| "fdiv rnd (Finite a) (Finite b) =
     (if b \<noteq> 0 then rnd (a / b)
      else if 0 < a then PosInf
      else if a < 0 then NegInf
      else NaN)"
| "fdiv rnd (Finite a) y = Finite 0"
| "fdiv rnd x (Finite b) = (if 0 \<le> b then x else fneg x)"
| "fdiv rnd x y = NaN"

text \<open>numpy's \<^verbatim>\<open>minimum\<close> and \<^verbatim>\<open>maximum\<close> of two values: a NaN wins.\<close>

definition fmin2 :: "fval \<Rightarrow> fval \<Rightarrow> fval" where
  "fmin2 x y = (if x = NaN \<or> y = NaN then NaN else if fle x y then x else y)"

definition fmax2 :: "fval \<Rightarrow> fval \<Rightarrow> fval" where
  "fmax2 x y = (if x = NaN \<or> y = NaN then NaN else if fle x y then y else x)"

section \<open>Arrays and scalars\<close>

text \<open>
  A numpy array is its element type, its shape and its samples in C order; a
  well-formed array has as many samples as the product of its shape. A conversion to
  an element type converts every sample: to a float type by rounding, to \<open>int64\<close> by
  truncation towards zero, where a value that has no \<open>int64\<close> becomes the least one.
\<close>

datatype np_dtype = Int64 | Float32 | Float64

record ndarray =
  dtype :: np_dtype
  shape :: "nat list"
  data :: "fval list"

definition wf_ndarray :: "ndarray \<Rightarrow> bool" where
  "wf_ndarray a = (length (data a) = prod_list (shape a))"

fun to_int64 :: "fval \<Rightarrow> fval" where
  "to_int64 (Finite x) =
     (let t = (if 0 \<le> x then \<lfloor>x\<rfloor> else \<lceil>x\<rceil>)
      in if - (2 ^ 63) \<le> t \<and> t < 2 ^ 63 then Finite (of_int t) else Finite (- (2 ^ 63)))"
| "to_int64 v = Finite (- (2 ^ 63))"

fun convert :: "np_dtype \<Rightarrow> fval \<Rightarrow> fval" where
  "convert Float32 v = cast round32 v"
| "convert Float64 v = cast round64 v"
| "convert Int64 v = to_int64 v"

text \<open>\<^verbatim>\<open>np.array(a)\<close> and \<^verbatim>\<open>np.array(a, dtype=t)\<close> on an array, and \<^verbatim>\<open>a.astype(t)\<close>.\<close>

definition np_array :: "ndarray \<Rightarrow> ndarray" where
  "np_array a = a"

definition np_array_dtype :: "np_dtype \<Rightarrow> ndarray \<Rightarrow> ndarray" where
  "np_array_dtype t a = a\<lparr>dtype := t, data := map (convert t) (data a)\<rparr>"

definition astype :: "np_dtype \<Rightarrow> ndarray \<Rightarrow> ndarray" where
  "astype t a = a\<lparr>dtype := t, data := map (convert t) (data a)\<rparr>"

text \<open>
  A scalar is a Python float, which is a double, or a numpy \<open>float32\<close>. In an
  operation with a \<open>float32\<close> array or scalar a Python float adapts to \<open>float32\<close>;
  two Python floats are subtracted as doubles.
\<close>

datatype scalar = PyFloat fval | NpFloat32 fval

fun value_of :: "scalar \<Rightarrow> fval" where
  "value_of (PyFloat v) = v"
| "value_of (NpFloat32 v) = v"

fun to32 :: "scalar \<Rightarrow> fval" where
  "to32 (PyFloat v) = cast round32 v"
| "to32 (NpFloat32 v) = v"

fun scalar_sub :: "scalar \<Rightarrow> scalar \<Rightarrow> scalar" where
  "scalar_sub (PyFloat x) (PyFloat y) = PyFloat (fsub round64 x y)"
| "scalar_sub x y = NpFloat32 (fsub round32 (to32 x) (to32 y))"

type_synonym vec3 = "real \<times> real \<times> real"

section \<open>Errors\<close>

datatype msg =
    Expected3D nat
  | ShapeMismatch "nat list" "nat list"
  | ZeroSizeReduction
  | UnpackShape nat

datatype error = ValueError msg | NotImplementedError

text \<open>Python's \<^verbatim>\<open>max\<close> of a sequence, and numpy's \<^verbatim>\<open>min\<close>/\<^verbatim>\<open>max\<close> reductions,
  which raise on an array without samples.\<close>

fun py_max :: "nat list \<Rightarrow> nat" where
  "py_max [] = 0"
| "py_max (x # xs) = fold max xs x"

definition np_min :: "ndarray \<Rightarrow> error + fval" where
  "np_min a = (case data a of [] \<Rightarrow> Inl (ValueError ZeroSizeReduction)
               | x # xs \<Rightarrow> Inr (fold fmin2 xs x))"

definition np_max :: "ndarray \<Rightarrow> error + fval" where
  "np_max a = (case data a of [] \<Rightarrow> Inl (ValueError ZeroSizeReduction)
               | x # xs \<Rightarrow> Inr (fold fmax2 xs x))"

section \<open>The graphics context\<close>

datatype target = GL_TEXTURE_1D | GL_TEXTURE_3D

datatype pname =
    GL_TEXTURE_WRAP_S | GL_TEXTURE_WRAP_T | GL_TEXTURE_WRAP_R
  | GL_TEXTURE_MAG_FILTER | GL_TEXTURE_MIN_FILTER

datatype pvalue = GL_CLAMP_TO_EDGE | GL_NEAREST

datatype gl_call =
    BindBuffer int
  | BufferData nat "fval list"
  | GenTextures int
  | GenVertexArrays int
  | GenBuffers int
  | DeleteVertexArrays int
  | DeleteBuffers int
  | BindTexture target int
  | TexParameterf target pname pvalue
  | TexParameteri target pname pvalue
  | TexImage3D nat nat nat "fval list"
  | BindVertexArray int
  | VertexAttribPointer nat nat nat nat
  | EnableVertexAttribArray nat
  | GetUniformLocation int string
  | Uniform1i int int
  | ActiveTexture nat
  | DrawArrays nat nat

text \<open>
  The world outside the object: what was printed, every call made on the graphics
  interface in order, and the part of the context's state that the calls on textures
  read and write. A parameter that was never set is \<open>None\<close>.
\<close>

record world =
  stdout :: "string list"
  gl_log :: "gl_call list"
  gl_names :: nat
  active_texture :: nat
  bound_texture :: "nat \<times> target \<Rightarrow> int"
  tex_parameter :: "int \<Rightarrow> pname \<Rightarrow> pvalue option"
  tex_image :: "int \<Rightarrow> (nat \<times> nat \<times> nat \<times> fval list) option"
  uniform_location :: "int \<Rightarrow> string \<Rightarrow> int"

definition print :: "string \<Rightarrow> world \<Rightarrow> world" where
  "print s w = w\<lparr>stdout := stdout w @ [s]\<rparr>"

definition emit :: "gl_call \<Rightarrow> world \<Rightarrow> world" where
  "emit c w = w\<lparr>gl_log := gl_log w @ [c]\<rparr>"

text \<open>Object names handed out by the context are positive and never repeated.\<close>

definition fresh_name :: "world \<Rightarrow> int \<times> world" where
  "fresh_name w = (int (Suc (gl_names w)), w\<lparr>gl_names := Suc (gl_names w)\<rparr>)"

definition glGenTextures :: "world \<Rightarrow> int \<times> world" where
  "glGenTextures w = (let (n, w1) = fresh_name w in (n, emit (GenTextures n) w1))"

definition glGenVertexArrays :: "world \<Rightarrow> int \<times> world" where
  "glGenVertexArrays w = (let (n, w1) = fresh_name w in (n, emit (GenVertexArrays n) w1))"

definition glGenBuffers :: "world \<Rightarrow> int \<times> world" where
  "glGenBuffers w = (let (n, w1) = fresh_name w in (n, emit (GenBuffers n) w1))"

definition glActiveTexture :: "nat \<Rightarrow> world \<Rightarrow> world" where
  "glActiveTexture u w = emit (ActiveTexture u) (w\<lparr>active_texture := u\<rparr>)"

definition glBindTexture :: "target \<Rightarrow> int \<Rightarrow> world \<Rightarrow> world" where
  "glBindTexture t x w =
     emit (BindTexture t x)
       (w\<lparr>bound_texture := (bound_texture w)((active_texture w, t) := x)\<rparr>)"

definition set_parameter :: "target \<Rightarrow> pname \<Rightarrow> pvalue \<Rightarrow> world \<Rightarrow> world" where
  "set_parameter t p v w =
     (let x = bound_texture w (active_texture w, t)
      in w\<lparr>tex_parameter := (tex_parameter w)(x := (tex_parameter w x)(p \<mapsto> v))\<rparr>)"

definition glTexParameterf :: "target \<Rightarrow> pname \<Rightarrow> pvalue \<Rightarrow> world \<Rightarrow> world" where
  "glTexParameterf t p v w = emit (TexParameterf t p v) (set_parameter t p v w)"

definition glTexParameteri :: "target \<Rightarrow> pname \<Rightarrow> pvalue \<Rightarrow> world \<Rightarrow> world" where
  "glTexParameteri t p v w = emit (TexParameteri t p v) (set_parameter t p v w)"

definition glTexImage3D :: "nat \<Rightarrow> nat \<Rightarrow> nat \<Rightarrow> fval list \<Rightarrow> world \<Rightarrow> world" where
  "glTexImage3D width height depth pixels w =
     (let x = bound_texture w (active_texture w, GL_TEXTURE_3D)
      in emit (TexImage3D width height depth pixels)
           (w\<lparr>tex_image := (tex_image w)(x := Some (width, height, depth, pixels))\<rparr>))"

section \<open>The cross-section object\<close>

record colormap_obj =
  cmap_tex_handle :: int

record cross_section =
  initialized :: bool
  array :: ndarray
  offset :: vec3
  x_size :: real
  y_size :: real
  z_size :: real
  vmin :: scalar
  vmax :: scalar
  triangles :: "fval list list"
  vao :: int
  vbo :: int
  tex :: int
  colormap :: colormap_obj

text \<open>
  What the class takes from outside this file: the base model of the concrete
  subclass, the default colormap, and the base renderable's class initialisation,
  shader program handle and render step. They are parameters of the model.
\<close>

record deps =
  base_model :: "error + vec3 list"
  viridis :: colormap_obj
  class_initialize :: "world \<Rightarrow> world"
  shader_program :: "world \<Rightarrow> int"
  super_render :: "world \<Rightarrow> world"

text \<open>The base model of \<^verbatim>\<open>BaseCrossSection\<close> itself: the method raises.\<close>

definition base_model_abstract :: "error + vec3 list" where
  "base_model_abstract = Inl NotImplementedError"

definition warning_text :: string where
  "warning_text = ''Warning: OpenGL only guarantees up to 256x256x256 3D textures''"

text \<open>
  One row of the mesh. The base model, the offset and the extents are doubles, so a
  position \<^verbatim>\<open>(uvw - 0.5 + offset) * size\<close> is computed in double arithmetic; the
  assignment into the \<open>float32\<close> mesh rounds the position columns and the texture
  coordinate columns.
\<close>

definition position :: "real \<Rightarrow> real \<Rightarrow> real \<Rightarrow> fval" where
  "position c off ext =
     fmul round64 (fadd round64 (fsub round64 (Finite c) (Finite (1/2))) (Finite off))
       (Finite ext)"

fun mesh_row :: "vec3 \<Rightarrow> real \<Rightarrow> real \<Rightarrow> real \<Rightarrow> vec3 \<Rightarrow> fval list" where
  "mesh_row (ox, oy, oz) xs ys zs (u, v, w) =
     map (convert Float32)
       [position u ox xs, position v oy ys, position w oz zs, Finite u, Finite v, Finite w]"

text \<open>
  Modelled from the spec: the constructor of the base renderable, which is not in the
  source, leaves the object not initialized and touches nothing else.
\<close>

definition init ::
  "deps \<Rightarrow> ndarray \<Rightarrow> vec3 \<Rightarrow> real option \<Rightarrow> real option \<Rightarrow> real option \<Rightarrow>
   scalar option \<Rightarrow> scalar option \<Rightarrow> colormap_obj option \<Rightarrow> world \<Rightarrow>
   (error + cross_section) \<times> world" where
  "init D array0 offset0 x_size0 y_size0 z_size0 vmin0 vmax0 cmap w =
     (let a = np_array_dtype Float32 array0 in
      if length (shape a) \<noteq> 3
      then (Inl (ValueError (Expected3D (length (shape a)))), w)
      else
        let w1 = (if 256 < py_max (shape a) then print warning_text w else w);
            xs = (case x_size0 of None \<Rightarrow> real (shape a ! 0) | Some s \<Rightarrow> s);
            ys = (case y_size0 of None \<Rightarrow> real (shape a ! 1) | Some s \<Rightarrow> s);
            zs = (case z_size0 of None \<Rightarrow> real (shape a ! 2) | Some s \<Rightarrow> s)
        in case (case vmin0 of None \<Rightarrow> map_sum id NpFloat32 (np_min a) | Some m \<Rightarrow> Inr m) of
             Inl e \<Rightarrow> (Inl e, w1)
           | Inr lo \<Rightarrow>
        (case (case vmax0 of None \<Rightarrow> map_sum id NpFloat32 (np_max a) | Some m \<Rightarrow> Inr m) of
             Inl e \<Rightarrow> (Inl e, w1)
           | Inr hi \<Rightarrow>
        (case base_model D of
             Inl e \<Rightarrow> (Inl e, w1)
           | Inr uvw \<Rightarrow>
             (Inr \<lparr>initialized = False,
                   array = a,
                   offset = offset0,
                   x_size = xs, y_size = ys, z_size = zs,
                   vmin = lo, vmax = hi,
                   triangles = map (mesh_row offset0 xs ys zs) uvw,
                   vao = - 1, vbo = - 1, tex = - 1,
                   colormap = (case cmap of None \<Rightarrow> viridis D | Some c \<Rightarrow> c)\<rparr>,
              w1))))"

definition setBuffers :: "cross_section \<times> world \<Rightarrow> cross_section \<times> world" where
  "setBuffers s =
     (let (obj, w) = s;
          w1 = emit (BindBuffer (vbo obj)) w;
          w2 = emit (BufferData (length (concat (triangles obj)) * 4)
                       (concat (triangles obj))) w1
      in (obj, w2))"

definition createTexture :: "cross_section \<times> world \<Rightarrow> cross_section \<times> world" where
  "createTexture s =
     (let (obj, w) = s;
          (obj1, w1) = (if tex obj = - 1
                        then (let (n, w') = glGenTextures w in (obj\<lparr>tex := n\<rparr>, w'))
                        else (obj, w));
          w2 = glBindTexture GL_TEXTURE_3D (tex obj1) w1;
          w3 = glTexParameterf GL_TEXTURE_3D GL_TEXTURE_WRAP_S GL_CLAMP_TO_EDGE w2;
          w4 = glTexParameterf GL_TEXTURE_3D GL_TEXTURE_WRAP_T GL_CLAMP_TO_EDGE w3;
          w5 = glTexParameteri GL_TEXTURE_3D GL_TEXTURE_MAG_FILTER GL_NEAREST w4;
          w6 = glTexParameteri GL_TEXTURE_3D GL_TEXTURE_MIN_FILTER GL_NEAREST w5
      in (obj1, w6))"

text \<open>
  \<^verbatim>\<open>((np.array(array) - vmin) / (vmax - vmin)).flatten().astype(np.float32)\<close>: on a
  \<open>float32\<close> array the subtraction and the division are \<open>float32\<close> operations, on
  any other array they are double operations; the last conversion rounds to
  \<open>float32\<close>.
\<close>

definition normalized :: "scalar \<Rightarrow> scalar \<Rightarrow> ndarray \<Rightarrow> fval list" where
  "normalized lo hi a =
     (let b = np_array a; width = scalar_sub hi lo
      in if dtype b = Float32
         then map (\<lambda>x. convert Float32
                          (fdiv round32 (fsub round32 x (to32 lo)) (to32 width)))
                (data b)
         else map (\<lambda>x. convert Float32
                          (fdiv round64 (fsub round64 (convert Float64 x) (value_of lo))
                             (value_of width)))
                (data b))"

definition setTexture ::
  "ndarray \<Rightarrow> cross_section \<times> world \<Rightarrow> error option \<times> cross_section \<times> world" where
  "setTexture a s =
     (let (obj, w) = s;
          (obj1, w1) = (if tex obj = - 1 then createTexture (obj, w) else (obj, w));
          pixels = normalized (vmin obj1) (vmax obj1) a
      in case shape a of
           [height, width, depth] \<Rightarrow>
             (let w2 = glBindTexture GL_TEXTURE_3D (tex obj1) w1;
                  w3 = glTexImage3D width height depth pixels w2
              in (None, obj1, w3))
         | _ \<Rightarrow> (Some (ValueError (UnpackShape (length (shape a)))), obj1, w1))"

definition createBuffers :: "cross_section \<times> world \<Rightarrow> cross_section \<times> world" where
  "createBuffers s =
     (let (obj, w) = s;
          (obj1, w1) = (if vao obj \<noteq> - 1
                        then (obj\<lparr>vao := - 1\<rparr>, emit (DeleteVertexArrays (vao obj)) w)
                        else (obj, w));
          (obj2, w2) = (if vbo obj1 \<noteq> - 1
                        then (obj1\<lparr>vbo := - 1\<rparr>, emit (DeleteBuffers (vbo obj1)) w1)
                        else (obj1, w1));
          (a, w3) = glGenVertexArrays w2;
          obj3 = obj2\<lparr>vao := a\<rparr>;
          (b, w4) = glGenBuffers w3;
          obj4 = obj3\<lparr>vbo := b\<rparr>;
          w5 = emit (BindBuffer (vbo obj4)) w4;
          w6 = emit (BufferData 0 (replicate 6 (Finite 0))) w5;
          w7 = emit (BindVertexArray (vao obj4)) w6;
          stride = (3 + 3) * 4;
          w8 = emit (VertexAttribPointer 0 3 stride 0) w7;
          w9 = emit (EnableVertexAttribArray 0) w8;
          w10 = emit (VertexAttribPointer 1 3 stride (3 * 4)) w9;
          w11 = emit (EnableVertexAttribArray 1) w10
      in (obj4, w11))"

definition initialize ::
  "deps \<Rightarrow> cross_section \<times> world \<Rightarrow> error option \<times> cross_section \<times> world" where
  "initialize D s =
     (let (obj, w) = s in
      if initialized obj then (None, obj, w)
      else
        let w1 = class_initialize D w;
            (obj2, w2) = createBuffers (obj, w1);
            (obj3, w3) = setBuffers (obj2, w2);
            (r, obj4, w4) = setTexture (array obj3) (obj3, w3)
        in case r of
             Some e \<Rightarrow> (Some e, obj4, w4)
           | None \<Rightarrow>
             (let cmap_loc = uniform_location w4 (shader_program D w4) ''cmap'';
                  w5 = emit (GetUniformLocation (shader_program D w4) ''cmap'') w4;
                  tex_loc = uniform_location w5 (shader_program D w5) ''field'';
                  w6 = emit (GetUniformLocation (shader_program D w5) ''field'') w5;
                  w7 = emit (Uniform1i cmap_loc 0) w6;
                  w8 = emit (Uniform1i tex_loc 1) w7
              in (None, obj4\<lparr>initialized := True\<rparr>, w8)))"

text \<open>The setter of the \<^verbatim>\<open>array\<close> property.\<close>

definition array_setter ::
  "ndarray \<Rightarrow> cross_section \<times> world \<Rightarrow> error option \<times> cross_section \<times> world" where
  "array_setter new_array0 s =
     (let (obj, w) = s;
          new_array = astype (dtype (array obj)) (np_array new_array0)
      in if shape new_array \<noteq> shape (array obj)
         then (Some (ValueError (ShapeMismatch (shape (array obj)) (shape new_array))),
               obj, w)
         else
           let obj1 = obj\<lparr>array := new_array\<rparr>
           in if initialized obj1 then setTexture (array obj1) (obj1, w)
              else (None, obj1, w))"

definition render :: "deps \<Rightarrow> cross_section \<times> world \<Rightarrow> cross_section \<times> world" where
  "render D s =
     (let (obj, w) = s;
          w1 = super_render D w;
          w2 = glActiveTexture 0 w1;
          w3 = glBindTexture GL_TEXTURE_1D (cmap_tex_handle (colormap obj)) w2;
          w4 = glActiveTexture 1 w3;
          w5 = glBindTexture GL_TEXTURE_3D (tex obj) w4;
          w6 = emit (BindVertexArray (vao obj)) w5;
          w7 = emit (BindBuffer (vbo obj)) w6;
          w8 = emit (DrawArrays 0 (length (triangles obj))) w7
      in (obj, w8))"

section \<open>Reading results\<close>

definition constructed :: "(error + cross_section) \<times> world \<Rightarrow> cross_section option" where
  "constructed r = (case fst r of Inl e \<Rightarrow> None | Inr obj \<Rightarrow> Some obj)"

definition result_obj :: "error option \<times> cross_section \<times> world \<Rightarrow> cross_section" where
  "result_obj r = fst (snd r)"

definition result_world :: "error option \<times> cross_section \<times> world \<Rightarrow> world" where
  "result_world r = snd (snd r)"

definition image_size :: "world \<Rightarrow> int \<Rightarrow> (nat \<times> nat \<times> nat) option" where
  "image_size w x = (case tex_image w x of None \<Rightarrow> None
                     | Some (width, height, depth, pixels) \<Rightarrow> Some (width, height, depth))"

definition image_pixels :: "world \<Rightarrow> int \<Rightarrow> fval list option" where
  "image_pixels w x = (case tex_image w x of None \<Rightarrow> None
                       | Some (width, height, depth, pixels) \<Rightarrow> Some pixels)"

section \<open>Sequences of operations on one object\<close>

text \<open>
  The methods and the public attributes a client can use on a constructed object. A
  call that raises leaves the object and the world as they were at the raise, and the
  client goes on from there.
\<close>

datatype op =
    Initialize
  | SetArray ndarray
  | Render
  | SetVmin scalar
  | SetVmax scalar
  | CreateTexture
  | SetTexture ndarray
  | SetBuffers
  | CreateBuffers

fun step :: "deps \<Rightarrow> op \<Rightarrow> cross_section \<times> world \<Rightarrow> cross_section \<times> world" where
  "step D Initialize s = snd (initialize D s)"
| "step D (SetArray a) s = snd (array_setter a s)"
| "step D Render s = render D s"
| "step D (SetVmin m) s = ((fst s)\<lparr>vmin := m\<rparr>, snd s)"
| "step D (SetVmax m) s = ((fst s)\<lparr>vmax := m\<rparr>, snd s)"
| "step D CreateTexture s = createTexture s"
| "step D (SetTexture a) s = snd (setTexture a s)"
| "step D SetBuffers s = setBuffers s"
| "step D CreateBuffers s = createBuffers s"

fun run :: "deps \<Rightarrow> op list \<Rightarrow> cross_section \<times> world \<Rightarrow> cross_section \<times> world" where
  "run D [] s = s"
| "run D (x # xs) s = run D xs (step D x s)"

section \<open>Concrete inputs\<close>

definition world0 :: world where
  "world0 = \<lparr>stdout = [], gl_log = [], gl_names = 0, active_texture = 0,
              bound_texture = (\<lambda>k. 0), tex_parameter = (\<lambda>x p. None),
              tex_image = (\<lambda>x. None), uniform_location = (\<lambda>p n. 0)\<rparr>"

text \<open>A subclass whose base model is two opposite corners of the unit cube and its centre.\<close>

definition example_deps :: deps where
  "example_deps = \<lparr>base_model = Inr [(0, 0, 0), (1/2, 1/2, 1/2), (1, 1, 1)],
                    viridis = \<lparr>cmap_tex_handle = 7\<rparr>,
                    class_initialize = (\<lambda>w. w),
                    shader_program = (\<lambda>w. 1),
                    super_render = (\<lambda>w. w)\<rparr>"

definition field123 :: ndarray where
  "field123 = \<lparr>dtype = Float64, shape = [1, 2, 3],
               data = map Finite [10, 12, 14, 16, 18, 20]\<rparr>"

definition field321 :: ndarray where
  "field321 = \<lparr>dtype = Int64, shape = [3, 2, 1], data = map Finite [1, 2, 3, 4, 5, 6]\<rparr>"

definition field123b :: ndarray where
  "field123b = \<lparr>dtype = Int64, shape = [1, 2, 3],
                data = map Finite [5, 10, 15, 20, 25, 30]\<rparr>"


definition field222 :: ndarray where
  "field222 = \<lparr>dtype = Float32, shape = [2, 2, 2],
               data = map Finite [0, 1, 2, 3, 4, 5, 6, 7]\<rparr>"

definition field444 :: ndarray where
  "field444 = \<lparr>dtype = Float32, shape = [4, 4, 4], data = replicate 64 (Finite 3)\<rparr>"

definition field_flat :: ndarray where
  "field_flat = \<lparr>dtype = Float32, shape = [2, 3], data = map Finite [1, 2, 3, 4, 5, 6]\<rparr>"


text \<open>An \<open>int64\<close> field whose largest sample has no \<open>float32\<close>.\<close>

definition field_big :: ndarray where
  "field_big = \<lparr>dtype = Int64, shape = [1, 1, 2], data = map Finite [16777217, 0]\<rparr>"

text \<open>The object built from \<open>field123\<close> with every optional argument left out, and the
  same object after \<^verbatim>\<open>initialize()\<close>.\<close>

definition built123 :: "(error + cross_section) \<times> world" where
  "built123 = init example_deps field123 (0, 0, 0) None None None None None None world0"

definition obj123 :: cross_section where
  "obj123 = \<lparr>initialized = False,
             array = \<lparr>dtype = Float32, shape = [1, 2, 3],
                       data = map Finite [10, 12, 14, 16, 18, 20]\<rparr>,
             offset = (0, 0, 0), x_size = 1, y_size = 2, z_size = 3,
             vmin = NpFloat32 (Finite 10), vmax = NpFloat32 (Finite 20),
             triangles = [map Finite [- (1/2), - 1, - (3/2), 0, 0, 0],
                          map Finite [0, 0, 0, 1/2, 1/2, 1/2],
                          map Finite [1/2, 1, 3/2, 1, 1, 1]],
             vao = - 1, vbo = - 1, tex = - 1,
             colormap = \<lparr>cmap_tex_handle = 7\<rparr>\<rparr>"

definition ready123 :: "error option \<times> cross_section \<times> world" where
  "ready123 = initialize example_deps (obj123, world0)"

section \<open>Rounding\<close>

lemma rne_bounds: "\<lfloor>y\<rfloor> \<le> rne y \<and> rne y \<le> \<lfloor>y\<rfloor> + 1"
  by (simp add: rne_def Let_def)

lemma rne_of_int: "rne (of_int n) = n"
  by (simp add: rne_def Let_def)

lemma rne_mono: "y \<le> z \<Longrightarrow> rne y \<le> rne z"
proof -
  assume le: "y \<le> z"
  then have fl: "\<lfloor>y\<rfloor> \<le> \<lfloor>z\<rfloor>" by (rule floor_mono)
  show ?thesis
  proof (cases "\<lfloor>y\<rfloor> < \<lfloor>z\<rfloor>")
    case True
    then show ?thesis using rne_bounds [of y] rne_bounds [of z] by linarith
  next
    case False
    with fl have eq: "\<lfloor>y\<rfloor> = \<lfloor>z\<rfloor>" by simp
    then show ?thesis using le by (auto simp: rne_def Let_def)
  qed
qed

lemma rne_nonneg: "0 \<le> y \<Longrightarrow> 0 \<le> rne y"
  using rne_mono [of 0 y] rne_of_int [of 0] by simp

lemma search_up_char:
  "2 powi e \<le> m \<Longrightarrow>
   e \<le> search_up n e m \<and> search_up n e m \<le> e + int n \<and>
   2 powi (search_up n e m) \<le> m \<and>
   (m < 2 powi (search_up n e m + 1) \<or> search_up n e m = e + int n)"
proof (induction n arbitrary: e)
  case 0
  then show ?case by simp
next
  case (Suc n)
  show ?case
  proof (cases "m < 2 powi (e + 1)")
    case True
    then show ?thesis using Suc.prems by simp
  next
    case False
    then have "2 powi (e + 1) \<le> m" by simp
    from Suc.IH [OF this] False show ?thesis by (simp add: algebra_simps; linarith?)
  qed
qed

lemma search_down_char:
  "m < 2 powi (e + 1) \<Longrightarrow>
   e - int n \<le> search_down n e m \<and> search_down n e m \<le> e \<and>
   m < 2 powi (search_down n e m + 1) \<and>
   (2 powi (search_down n e m) \<le> m \<or> search_down n e m = e - int n)"
proof (induction n arbitrary: e)
  case 0
  then show ?case by simp
next
  case (Suc n)
  show ?case
  proof (cases "2 powi e \<le> m")
    case True
    then show ?thesis using Suc.prems by simp
  next
    case False
    then have "m < 2 powi (e - 1 + 1)" by simp
    from Suc.IH [OF this] False show ?thesis by (simp add: algebra_simps; linarith?)
  qed
qed

lemma expo_char:
  assumes "0 \<le> emax" and "emin \<le> - 1"
  shows "emin \<le> expo emin emax m \<and> expo emin emax m \<le> emax \<and>
         (2 powi (expo emin emax m) \<le> m \<or> expo emin emax m = emin) \<and>
         (m < 2 powi (expo emin emax m + 1) \<or> expo emin emax m = emax)"
proof (cases "1 \<le> m")
  case True
  then have "2 powi 0 \<le> m" by simp
  from search_up_char [OF this, of "nat emax"] True assms show ?thesis
    by (simp add: expo_def; linarith?)
next
  case False
  then have "m < 2 powi (- 1 + 1)" by simp
  from search_down_char [OF this, of "nat (- 1 - emin)"] False assms show ?thesis
    by (simp add: expo_def; linarith?)
qed

lemma expo_mono:
  assumes "0 \<le> emax" and "emin \<le> - 1" and "m \<le> m'"
  shows "expo emin emax m \<le> expo emin emax m'"
proof (rule ccontr)
  assume "\<not> ?thesis"
  then have lt: "expo emin emax m' < expo emin emax m" by simp
  from expo_char [OF assms(1,2), of m] lt expo_char [OF assms(1,2), of m']
  have a: "2 powi (expo emin emax m) \<le> m" and b: "m' < 2 powi (expo emin emax m' + 1)"
    by linarith+
  have "(2::real) powi (expo emin emax m' + 1) \<le> 2 powi (expo emin emax m)"
    using lt by (intro power_int_increasing) simp_all
  with a b assms(3) show False by linarith
qed

lemma rmag_nonneg: "0 \<le> m \<Longrightarrow> 0 \<le> rmag p emin emax m"
  by (simp add: rmag_def Let_def rne_nonneg)

lemma rmag_mono:
  assumes "0 \<le> emax" and "emin \<le> - 1" and "0 < p" and "0 \<le> m" and "m \<le> m'"
  shows "rmag p emin emax m \<le> rmag p emin emax m'"
proof -
  let ?e = "expo emin emax m" and ?e' = "expo emin emax m'"
  let ?q = "(2::real) powi (?e - int p + 1)" and ?q' = "(2::real) powi (?e' - int p + 1)"
  have q: "0 < ?q" "0 < ?q'" by simp_all
  have ee: "?e \<le> ?e'" by (rule expo_mono [OF assms(1,2,5)])
  show ?thesis
  proof (cases "?e = ?e'")
    case True
    have "m / ?q \<le> m' / ?q" using assms(5) q by (simp add: divide_right_mono)
    then have "rne (m / ?q) \<le> rne (m' / ?q)" by (rule rne_mono)
    then have "of_int (rne (m / ?q)) * ?q \<le> of_int (rne (m' / ?q)) * ?q"
      using q by (simp add: mult_right_mono)
    then show ?thesis using True by (simp add: rmag_def Let_def)
  next
    case False
    with ee have lt: "?e < ?e'" by simp
    from expo_char [OF assms(1,2), of m] lt expo_char [OF assms(1,2), of m']
    have a: "m < 2 powi (?e + 1)" and b: "2 powi ?e' \<le> m'" by linarith+
    have "(2::real) powi (?e + 1) = 2 powi (int p + (?e - int p + 1))" by simp
    also have "\<dots> = 2 powi int p * ?q" by (rule power_int_add) simp
    finally have p2: "(2::real) powi (?e + 1) = 2 ^ p * ?q" by simp
    have ip: "int (p - 1) = int p - 1" using assms(3) by simp
    have "(2::real) powi ?e' = 2 powi (int (p - 1) + (?e' - int p + 1))" using ip by simp
    also have "\<dots> = 2 powi int (p - 1) * ?q'" by (rule power_int_add) simp
    finally have p2': "(2::real) powi ?e' = 2 ^ (p - 1) * ?q'" by simp
    have "m / ?q \<le> 2 ^ p" using a q p2 by (simp add: field_simps)
    then have "rne (m / ?q) \<le> rne (of_int (2 ^ p))" by (intro rne_mono) simp
    then have "rne (m / ?q) \<le> 2 ^ p" by (simp only: rne_of_int)
    then have "(of_int (rne (m / ?q)) :: real) \<le> of_int (2 ^ p)" by (simp only: of_int_le_iff)
    then have "of_int (rne (m / ?q)) * ?q \<le> 2 ^ p * ?q" using q by (simp add: mult_right_mono)
    then have up: "rmag p emin emax m \<le> 2 powi (?e + 1)" using p2 by (simp add: rmag_def Let_def)
    have "2 ^ (p - 1) \<le> m' / ?q'" using b q p2' by (simp add: field_simps)
    then have "rne (of_int (2 ^ (p - 1))) \<le> rne (m' / ?q')" by (intro rne_mono) simp
    then have "2 ^ (p - 1) \<le> rne (m' / ?q')" by (simp only: rne_of_int)
    then have "(of_int (2 ^ (p - 1)) :: real) \<le> of_int (rne (m' / ?q'))" by (simp only: of_int_le_iff)
    then have "2 ^ (p - 1) * ?q' \<le> of_int (rne (m' / ?q')) * ?q'" using q by (simp add: mult_right_mono)
    then have lo: "2 powi ?e' \<le> rmag p emin emax m'" using p2' by (simp add: rmag_def Let_def)
    have "(2::real) powi (?e + 1) \<le> 2 powi ?e'"
      using lt by (intro power_int_increasing) simp_all
    with up lo show ?thesis by linarith
  qed
qed


lemma round_to_mono:
  assumes "0 \<le> emax" and "emin \<le> - 1" and "0 < p" and "x \<le> y"
  shows "fle (round_to p emin emax x) (round_to p emin emax y)"
proof -
  let ?T = "(2::real) powi (emax + 1)"
  consider (pos) "0 \<le> x" | (mid) "x < 0" "0 \<le> y" | (neg) "y < 0" by linarith
  then show ?thesis
  proof cases
    case pos
    then have "rmag p emin emax \<bar>x\<bar> \<le> rmag p emin emax \<bar>y\<bar>"
      using assms by (intro rmag_mono) simp_all
    then show ?thesis using pos assms(4) by (simp add: round_to_def Let_def)
  next
    case mid
    have "0 \<le> rmag p emin emax \<bar>x\<bar>" "0 \<le> rmag p emin emax \<bar>y\<bar>"
      by (simp_all add: rmag_nonneg)
    then show ?thesis using mid by (simp add: round_to_def Let_def)
  next
    case neg
    then have "rmag p emin emax \<bar>y\<bar> \<le> rmag p emin emax \<bar>x\<bar>"
      using assms by (intro rmag_mono) simp_all
    then show ?thesis using neg assms(4) by (simp add: round_to_def Let_def)
  qed
qed


lemma round64_mono: "x \<le> y \<Longrightarrow> fle (round64 x) (round64 y)"
  unfolding round64_def by (rule round_to_mono) simp_all

lemmas float_eval = round32_def round64_def round_to_def rmag_def expo_def rne_def Let_def
  eval_nat_numeral


lemma round32_exact:
  "round32 (0) = Finite (0)"
  "round32 (1) = Finite (1)"
  "round32 (2) = Finite (2)"
  "round32 (3) = Finite (3)"
  "round32 (4) = Finite (4)"
  "round32 (5) = Finite (5)"
  "round32 (6) = Finite (6)"
  "round32 (7) = Finite (7)"
  "round32 (10) = Finite (10)"
  "round32 (12) = Finite (12)"
  "round32 (14) = Finite (14)"
  "round32 (15) = Finite (15)"
  "round32 (16) = Finite (16)"
  "round32 (18) = Finite (18)"
  "round32 (20) = Finite (20)"
  "round32 (25) = Finite (25)"
  "round32 (30) = Finite (30)"
  "round32 (1/2) = Finite (1/2)"
  "round32 (3/2) = Finite (3/2)"
  "round32 (- (1/2)) = Finite (- (1/2))"
  "round32 (- 1) = Finite (- 1)"
  "round32 (- (3/2)) = Finite (- (3/2))"
  "round32 (- 2) = Finite (- 2)"
  "round32 (16777216) = Finite (16777216)"
  "round32 8 = Finite 8"
  by (simp_all add: float_eval)

lemma round64_exact:
  "round64 (0) = Finite (0)"
  "round64 (1) = Finite (1)"
  "round64 (2) = Finite (2)"
  "round64 (3) = Finite (3)"
  "round64 (10) = Finite (10)"
  "round64 (20) = Finite (20)"
  "round64 (1/2) = Finite (1/2)"
  "round64 (3/2) = Finite (3/2)"
  "round64 (- (1/2)) = Finite (- (1/2))"
  "round64 (- 1) = Finite (- 1)"
  "round64 (- (3/2)) = Finite (- (3/2))"
  "round64 (- 2) = Finite (- 2)"
  by (simp_all add: float_eval)

lemma round32_more:
  "round32 (- 5) = Finite (- 5)"
  "round32 (13421773 / 67108864) = Finite (13421773 / 67108864)"
  "round32 (13421773 / 33554432) = Finite (13421773 / 33554432)"
  "round32 (5033165 / 8388608) = Finite (5033165 / 8388608)"
  "round32 (13421773 / 16777216) = Finite (13421773 / 16777216)"
  by (simp_all add: float_eval)

lemma round32_inexact:
  "round32 16777217 = Finite 16777216"
  "round32 (1/5) = Finite (13421773 / 67108864)"
  "round32 (2/5) = Finite (13421773 / 33554432)"
  "round32 (3/5) = Finite (5033165 / 8388608)"
  "round32 (4/5) = Finite (13421773 / 16777216)"
  by (simp_all add: float_eval)

section \<open>Auxiliary facts\<close>

lemmas gl_defs = emit_def fresh_name_def glGenTextures_def glGenVertexArrays_def
  glGenBuffers_def glActiveTexture_def glBindTexture_def set_parameter_def
  glTexParameterf_def glTexParameteri_def glTexImage3D_def

lemma built123_eq: "built123 = (Inr obj123, world0)"
  by (simp add: built123_def obj123_def init_def example_deps_def field123_def
      np_array_dtype_def np_min_def np_max_def world0_def fmin2_def fmax2_def
      position_def fsub_def round32_exact round64_exact)

lemma fle_refl: "x \<noteq> NaN \<Longrightarrow> fle x x"
  by (cases x) simp_all

lemma fle_total: "x \<noteq> NaN \<Longrightarrow> y \<noteq> NaN \<Longrightarrow> fle x y \<or> fle y x"
  by (cases x; cases y) auto

lemma fle_trans: "fle x y \<Longrightarrow> fle y z \<Longrightarrow> fle x z"
  by (cases x; cases y; cases z) simp_all

lemma fle_antisym: "fle x y \<Longrightarrow> fle y x \<Longrightarrow> x = y"
  by (cases x; cases y) simp_all

lemma fold_fmin2_least:
  "NaN \<notin> set (x # xs) \<Longrightarrow>
   fold fmin2 xs x \<in> set (x # xs) \<and> (\<forall>y \<in> set (x # xs). fle (fold fmin2 xs x) y)"
proof (induction xs arbitrary: x)
  case Nil
  then show ?case by (simp add: fle_refl)
next
  case (Cons a xs)
  let ?m = "fmin2 a x"
  from Cons.prems have n: "a \<noteq> NaN" "x \<noteq> NaN" "NaN \<notin> set xs" by auto
  then have m: "?m \<noteq> NaN" "?m = a \<or> ?m = x" "fle ?m a" "fle ?m x"
    using fle_total [of a x] by (auto simp: fmin2_def fle_refl)
  from m(1) n(3) have "NaN \<notin> set (?m # xs)" by auto
  from Cons.IH [OF this]
  have ih: "fold fmin2 xs ?m \<in> set (?m # xs)" "\<forall>y \<in> set (?m # xs). fle (fold fmin2 xs ?m) y"
    by simp_all
  from ih(2) have "fle (fold fmin2 xs ?m) ?m" by simp
  then have "fle (fold fmin2 xs ?m) a" "fle (fold fmin2 xs ?m) x"
    using m(3,4) fle_trans by blast+
  then show ?case using ih m(2) by auto
qed

lemma fold_fmax2_greatest:
  "NaN \<notin> set (x # xs) \<Longrightarrow>
   fold fmax2 xs x \<in> set (x # xs) \<and> (\<forall>y \<in> set (x # xs). fle y (fold fmax2 xs x))"
proof (induction xs arbitrary: x)
  case Nil
  then show ?case by (simp add: fle_refl)
next
  case (Cons a xs)
  let ?m = "fmax2 a x"
  from Cons.prems have n: "a \<noteq> NaN" "x \<noteq> NaN" "NaN \<notin> set xs" by auto
  then have m: "?m \<noteq> NaN" "?m = a \<or> ?m = x" "fle a ?m" "fle x ?m"
    using fle_total [of a x] by (auto simp: fmax2_def fle_refl)
  from m(1) n(3) have "NaN \<notin> set (?m # xs)" by auto
  from Cons.IH [OF this]
  have ih: "fold fmax2 xs ?m \<in> set (?m # xs)" "\<forall>y \<in> set (?m # xs). fle y (fold fmax2 xs ?m)"
    by simp_all
  from ih(2) have "fle ?m (fold fmax2 xs ?m)" by simp
  then have "fle a (fold fmax2 xs ?m)" "fle x (fold fmax2 xs ?m)"
    using m(3,4) fle_trans by blast+
  then show ?case using ih m(2) by auto
qed

lemma fold_fmin2_const: "\<forall>y \<in> set xs. y = x \<Longrightarrow> fold fmin2 xs x = x"
  by (induction xs) (auto simp: fmin2_def fle_refl)

lemma fold_fmax2_const: "\<forall>y \<in> set xs. y = x \<Longrightarrow> fold fmax2 xs x = x"
  by (induction xs) (auto simp: fmax2_def fle_refl)

lemma np_min_nonempty: "data a \<noteq> [] \<Longrightarrow> \<exists>m. np_min a = Inr m"
  by (cases "data a") (simp_all add: np_min_def)

lemma np_max_nonempty: "data a \<noteq> [] \<Longrightarrow> \<exists>m. np_max a = Inr m"
  by (cases "data a") (simp_all add: np_max_def)

lemma np_min_least:
  assumes "data a \<noteq> []" and "NaN \<notin> set (data a)"
  shows "\<exists>m. np_min a = Inr m \<and> m \<in> set (data a) \<and> (\<forall>x \<in> set (data a). fle m x)"
proof (cases "data a")
  case Nil
  with assms(1) show ?thesis by simp
next
  case (Cons x xs)
  with assms(2) have "NaN \<notin> set (x # xs)" by simp
  from fold_fmin2_least [OF this] Cons show ?thesis by (simp add: np_min_def)
qed

lemma np_max_greatest:
  assumes "data a \<noteq> []" and "NaN \<notin> set (data a)"
  shows "\<exists>m. np_max a = Inr m \<and> m \<in> set (data a) \<and> (\<forall>x \<in> set (data a). fle x m)"
proof (cases "data a")
  case Nil
  with assms(1) show ?thesis by simp
next
  case (Cons x xs)
  with assms(2) have "NaN \<notin> set (x # xs)" by simp
  from fold_fmax2_greatest [OF this] Cons show ?thesis by (simp add: np_max_def)
qed

lemma np_min_max_const:
  assumes "data a \<noteq> []" and "\<forall>x \<in> set (data a). x = k"
  shows "np_min a = Inr k \<and> np_max a = Inr k"
proof (cases "data a")
  case Nil
  with assms(1) show ?thesis by simp
next
  case (Cons x xs)
  with assms(2) have "x = k" "\<forall>y \<in> set xs. y = k" by simp_all
  then show ?thesis
    using Cons fold_fmin2_const [of xs k] fold_fmax2_const [of xs k]
    by (simp add: np_min_def np_max_def)
qed


lemma setTexture_3d_ok: "length (shape a) = 3 \<Longrightarrow> fst (setTexture a s) = None"
  by (cases "shape a" rule: list.exhaust; simp?)
     (auto simp: setTexture_def Let_def length_Suc_conv split: prod.splits list.splits)

lemma initialize_returns_initialized:
  "initialize D s = (None, obj', w') \<Longrightarrow> initialized obj'"
  by (auto simp: initialize_def Let_def split: prod.splits if_splits option.splits)

lemma initialize_3d_ok:
  "length (shape (array obj)) = 3 \<Longrightarrow> fst (initialize D (obj, w)) = None"
proof -
  assume len: "length (shape (array obj)) = 3"
  have cb: "array (fst (createBuffers (obj, w'))) = array obj" for w'
    by (simp add: createBuffers_def Let_def gl_defs split: prod.splits)
  have sb: "array (fst (setBuffers s)) = array (fst s)" for s
    by (simp add: setBuffers_def Let_def split: prod.splits)
  show ?thesis
  proof (cases "initialized obj")
    case True
    then show ?thesis by (simp add: initialize_def)
  next
    case False
    let ?s = "setBuffers (createBuffers (obj, class_initialize D w))"
    have "array (fst ?s) = array obj" using sb [of "createBuffers (obj, class_initialize D w)"] cb by simp
    then have "fst (setTexture (array (fst ?s)) ?s) = None"
      using len setTexture_3d_ok by simp
    then show ?thesis using False
      by (auto simp: initialize_def Let_def split: prod.splits option.splits)
  qed
qed

section \<open>Construction\<close>

text \<open>
  C3. An array whose number of dimensions is not 3 makes the constructor raise the
  \<^verbatim>\<open>ValueError\<close> of the dimension check (the spec's ShapeError). No object
  exists afterwards and the world, with its record of graphics calls, is as it was.
\<close>

theorem init_not_3d:
  "length (shape a) \<noteq> 3 \<Longrightarrow>
   init D a off xs0 ys0 zs0 lo0 hi0 c w =
     (Inl (ValueError (Expected3D (length (shape a)))), w)"
  by (simp add: init_def np_array_dtype_def)

theorem init_not_3d_witness:
  "length (shape field_flat) \<noteq> 3 \<and>
   init example_deps field_flat (0, 0, 0) None None None None None None world0 =
     (Inl (ValueError (Expected3D 2)), world0)"
proof -
  have h: "length (shape field_flat) \<noteq> 3" by (simp add: field_flat_def)
  show ?thesis
    using h init_not_3d [OF h, of example_deps "(0, 0, 0)" None None None None None None world0]
    by (simp add: field_flat_def)
qed

text \<open>
  C7. For a 3D field with at least one sample and a subclass that supplies a base
  model, construction succeeds and stores the \<open>float32\<close> conversion of the input. A
  colour bound that is left out is a least (respectively greatest) sample of the
  stored field when no stored sample is NaN, and NaN otherwise; on a field whose
  samples are all one value that is not NaN both bounds are that value, converted. An
  extent that is left out is the corresponding dimension of the array, whatever the
  other arguments are.
\<close>

theorem init_defaults:
  assumes "length (shape a) = 3" and "data a \<noteq> []" and "base_model D = Inr uvw"
  shows "\<exists>obj w'. init D a off xs0 ys0 zs0 lo0 hi0 c w = (Inr obj, w') \<and>
           array obj = np_array_dtype Float32 a \<and>
           (lo0 = None \<and> NaN \<notin> set (data (array obj)) \<longrightarrow>
              (\<exists>m. vmin obj = NpFloat32 m \<and> m \<in> set (data (array obj)) \<and>
                   (\<forall>x \<in> set (data (array obj)). fle m x))) \<and>
           (hi0 = None \<and> NaN \<notin> set (data (array obj)) \<longrightarrow>
              (\<exists>m. vmax obj = NpFloat32 m \<and> m \<in> set (data (array obj)) \<and>
                   (\<forall>x \<in> set (data (array obj)). fle x m))) \<and>
           (lo0 = None \<and> NaN \<in> set (data (array obj)) \<longrightarrow> vmin obj = NpFloat32 NaN) \<and>
           (hi0 = None \<and> NaN \<in> set (data (array obj)) \<longrightarrow> vmax obj = NpFloat32 NaN) \<and>
           (lo0 = None \<and> hi0 = None \<and> (\<forall>x \<in> set (data a). x = k) \<and> k \<noteq> NaN \<longrightarrow>
              vmin obj = vmax obj \<and> vmin obj = NpFloat32 (convert Float32 k) \<and>
              convert Float32 k \<noteq> NaN) \<and>
           (xs0 = None \<longrightarrow> x_size obj = real (shape a ! 0)) \<and>
           (ys0 = None \<longrightarrow> y_size obj = real (shape a ! 1)) \<and>
           (zs0 = None \<longrightarrow> z_size obj = real (shape a ! 2))"
proof -
  let ?a = "np_array_dtype Float32 a"
  have d: "data ?a \<noteq> []" and s: "shape ?a = shape a"
    and dd: "data ?a = map (convert Float32) (data a)"
    using assms(2) by (simp_all add: np_array_dtype_def)
  obtain m where mn: "np_min ?a = Inr m" using np_min_nonempty [OF d] by blast
  obtain n where mx: "np_max ?a = Inr n" using np_max_nonempty [OF d] by blast
  have least: "m \<in> set (data ?a) \<and> (\<forall>x \<in> set (data ?a). fle m x)"
    if "NaN \<notin> set (data ?a)"
    using np_min_least [OF d that] mn by simp
  have greatest: "n \<in> set (data ?a) \<and> (\<forall>x \<in> set (data ?a). fle x n)"
    if "NaN \<notin> set (data ?a)"
    using np_max_greatest [OF d that] mx by simp
  have nan: "m = NaN \<and> n = NaN" if "NaN \<in> set (data ?a)"
  proof (cases "data ?a")
    case Nil
    with d show ?thesis by simp
  next
    case (Cons x xs)
    have "fold fmin2 ys y = NaN \<and> fold fmax2 ys y = NaN" if "NaN \<in> set (y # ys)" for y ys
      using that
    proof (induction ys arbitrary: y)
      case Nil
      then show ?case by simp
    next
      case (Cons b ys)
      have "NaN \<in> set (fmin2 b y # ys)" "NaN \<in> set (fmax2 b y # ys)"
        using Cons.prems by (auto simp: fmin2_def fmax2_def)
      then show ?case using Cons.IH by simp
    qed
    from this [of x xs] that Cons mn mx show ?thesis
      by (simp add: np_min_def np_max_def)
  qed
  have const: "m = convert Float32 k \<and> n = convert Float32 k \<and> convert Float32 k \<noteq> NaN"
    if "\<forall>x \<in> set (data a). x = k" and "k \<noteq> NaN"
  proof -
    from that(1) have "\<forall>x \<in> set (data ?a). x = convert Float32 k" by (auto simp: dd)
    from np_min_max_const [OF d this] mn mx
    have "m = convert Float32 k \<and> n = convert Float32 k" by simp
    moreover have "convert Float32 k \<noteq> NaN"
      using that(2) by (cases k) (simp_all add: round32_def round_to_def Let_def)
    ultimately show ?thesis by simp
  qed
  let ?lo = "case lo0 of None \<Rightarrow> NpFloat32 m | Some v \<Rightarrow> v"
  let ?hi = "case hi0 of None \<Rightarrow> NpFloat32 n | Some v \<Rightarrow> v"
  let ?obj = "\<lparr>initialized = False, array = ?a, offset = off,
      x_size = (case xs0 of None \<Rightarrow> real (shape ?a ! 0) | Some s \<Rightarrow> s),
      y_size = (case ys0 of None \<Rightarrow> real (shape ?a ! 1) | Some s \<Rightarrow> s),
      z_size = (case zs0 of None \<Rightarrow> real (shape ?a ! 2) | Some s \<Rightarrow> s),
      vmin = ?lo, vmax = ?hi,
      triangles = map (mesh_row off
          (case xs0 of None \<Rightarrow> real (shape ?a ! 0) | Some s \<Rightarrow> s)
          (case ys0 of None \<Rightarrow> real (shape ?a ! 1) | Some s \<Rightarrow> s)
          (case zs0 of None \<Rightarrow> real (shape ?a ! 2) | Some s \<Rightarrow> s)) uvw,
      vao = - 1, vbo = - 1, tex = - 1,
      colormap = (case c of None \<Rightarrow> viridis D | Some c \<Rightarrow> c)\<rparr>"
  have ini: "init D a off xs0 ys0 zs0 lo0 hi0 c w =
      (Inr ?obj, if 256 < py_max (shape ?a) then print warning_text w else w)"
    using assms(1,3) s mn mx
    by (cases lo0; cases hi0) (simp_all add: init_def Let_def)
  have props: "array ?obj = ?a \<and>
           (lo0 = None \<and> NaN \<notin> set (data (array ?obj)) \<longrightarrow>
              (\<exists>m. vmin ?obj = NpFloat32 m \<and> m \<in> set (data (array ?obj)) \<and>
                   (\<forall>x \<in> set (data (array ?obj)). fle m x))) \<and>
           (hi0 = None \<and> NaN \<notin> set (data (array ?obj)) \<longrightarrow>
              (\<exists>m. vmax ?obj = NpFloat32 m \<and> m \<in> set (data (array ?obj)) \<and>
                   (\<forall>x \<in> set (data (array ?obj)). fle x m))) \<and>
           (lo0 = None \<and> NaN \<in> set (data (array ?obj)) \<longrightarrow> vmin ?obj = NpFloat32 NaN) \<and>
           (hi0 = None \<and> NaN \<in> set (data (array ?obj)) \<longrightarrow> vmax ?obj = NpFloat32 NaN) \<and>
           (lo0 = None \<and> hi0 = None \<and> (\<forall>x \<in> set (data a). x = k) \<and> k \<noteq> NaN \<longrightarrow>
              vmin ?obj = vmax ?obj \<and> vmin ?obj = NpFloat32 (convert Float32 k) \<and>
              convert Float32 k \<noteq> NaN) \<and>
           (xs0 = None \<longrightarrow> x_size ?obj = real (shape a ! 0)) \<and>
           (ys0 = None \<longrightarrow> y_size ?obj = real (shape a ! 1)) \<and>
           (zs0 = None \<longrightarrow> z_size ?obj = real (shape a ! 2))"
    using least greatest nan const s by simp
  show ?thesis using ini props by blast
qed

theorem init_defaults_witness:
  "length (shape field_big) = 3 \<and> data field_big \<noteq> [] \<and>
   length (shape field444) = 3 \<and> data field444 \<noteq> [] \<and>
   base_model example_deps = Inr [(0, 0, 0), (1/2, 1/2, 1/2), (1, 1, 1)] \<and>
   (\<exists>obj w'. init example_deps field_big (0, 0, 0) None None None None None None world0
                = (Inr obj, w') \<and>
      data (array obj) = [Finite 16777216, Finite 0] \<and>
      vmin obj = NpFloat32 (Finite 0) \<and> vmax obj = NpFloat32 (Finite 16777216) \<and>
      x_size obj = 1 \<and> y_size obj = 1 \<and> z_size obj = 2) \<and>
   set (data field444) = {Finite 3} \<and>
   (\<exists>obj w'. init example_deps field444 (0, 0, 0) None None None None None None world0
                = (Inr obj, w') \<and>
      vmin obj = vmax obj \<and> vmin obj = NpFloat32 (Finite 3))"
proof -
  have h1: "length (shape field_big) = 3" by (simp add: field_big_def)
  have h2: "data field_big \<noteq> []" by (simp add: field_big_def)
  have g1: "length (shape field444) = 3" by (simp add: field444_def)
  have g2: "data field444 \<noteq> []" by (simp add: field444_def)
  have h3: "base_model example_deps = Inr [(0, 0, 0), (1/2, 1/2, 1/2), (1, 1, 1)]"
    by (simp add: example_deps_def)
  have g5: "set (data field444) = {Finite 3}" by (simp add: field444_def)
  have sh: "shape field_big = [1, 1, 2]" by (simp add: field_big_def)
  have st: "data (np_array_dtype Float32 field_big) = [Finite 16777216, Finite 0]"
    by (simp add: np_array_dtype_def field_big_def round32_exact round32_inexact)
  from init_defaults [OF h1 h2 h3, of "(0, 0, 0)" None None None None None None world0 NaN]
  obtain obj w' where o:
    "init example_deps field_big (0, 0, 0) None None None None None None world0 = (Inr obj, w')"
    "array obj = np_array_dtype Float32 field_big"
    and lo: "\<exists>m. vmin obj = NpFloat32 m \<and> m \<in> set (data (array obj)) \<and>
                   (\<forall>x \<in> set (data (array obj)). fle m x)"
    and hi: "\<exists>m. vmax obj = NpFloat32 m \<and> m \<in> set (data (array obj)) \<and>
                   (\<forall>x \<in> set (data (array obj)). fle x m)"
    and sz: "x_size obj = real (shape field_big ! 0)" "y_size obj = real (shape field_big ! 1)"
      "z_size obj = real (shape field_big ! 2)"
    using st by auto
  have da: "data (array obj) = [Finite 16777216, Finite 0]" using o(2) st by simp
  have "vmin obj = NpFloat32 (Finite 0)" using lo unfolding da by auto
  moreover have "vmax obj = NpFloat32 (Finite 16777216)" using hi unfolding da by auto
  ultimately have p1: "\<exists>obj w'.
      init example_deps field_big (0, 0, 0) None None None None None None world0 = (Inr obj, w') \<and>
      data (array obj) = [Finite 16777216, Finite 0] \<and>
      vmin obj = NpFloat32 (Finite 0) \<and> vmax obj = NpFloat32 (Finite 16777216) \<and>
      x_size obj = 1 \<and> y_size obj = 1 \<and> z_size obj = 2"
    using o(1) da sz sh by auto
  have k: "\<forall>x \<in> set (data field444). x = Finite 3" "Finite 3 \<noteq> NaN" using g5 by simp_all
  have c3: "convert Float32 (Finite 3) = Finite 3" by (simp add: round32_exact)
  from init_defaults [OF g1 g2 h3, of "(0, 0, 0)" None None None None None None world0 "Finite 3"]
  have p2: "\<exists>obj w'.
      init example_deps field444 (0, 0, 0) None None None None None None world0 = (Inr obj, w') \<and>
      vmin obj = vmax obj \<and> vmin obj = NpFloat32 (Finite 3)"
    using k c3 by auto
  show ?thesis using h1 h2 g1 g2 h3 g5 p1 p2 by blast
qed



section \<open>Initialisation\<close>

text \<open>
  C6. Once \<^verbatim>\<open>initialize()\<close> has completed on an object, calling it again returns
  at once: the object and the world, with its record of graphics calls, are unchanged.
\<close>

theorem initialize_idempotent:
  "initialize D s = (None, obj', w') \<Longrightarrow> initialize D (obj', w') = (None, obj', w')"
  by (frule initialize_returns_initialized) (simp add: initialize_def)

theorem initialize_idempotent_witness:
  "initialize example_deps (obj123, world0) =
     (None, result_obj ready123, result_world ready123) \<and>
   initialize example_deps (result_obj ready123, result_world ready123) =
     (None, result_obj ready123, result_world ready123)"
proof -
  have "fst ready123 = None"
    unfolding ready123_def by (rule initialize_3d_ok) (simp add: obj123_def)
  then have h: "initialize example_deps (obj123, world0) =
      (None, result_obj ready123, result_world ready123)"
    by (simp add: ready123_def result_obj_def result_world_def prod_eq_iff)
  show ?thesis using h initialize_idempotent [OF h] by simp
qed

section \<open>Field replacement\<close>

text \<open>
  C4. On an object holding a 3D field, assigning an array of another shape raises the
  \<^verbatim>\<open>ValueError\<close> of the shape check (the spec's MismatchError) and leaves the
  object, hence its stored field, and the world as they were; the assignment returns
  normally exactly when the shapes are equal.
\<close>

theorem array_setter_shape:
  "length (shape (array obj)) = 3 \<Longrightarrow>
   (fst (array_setter new (obj, w)) = None) = (shape new = shape (array obj)) \<and>
   (shape new \<noteq> shape (array obj) \<longrightarrow>
      array_setter new (obj, w) =
        (Some (ValueError (ShapeMismatch (shape (array obj)) (shape new))), obj, w))"
  by (auto simp: array_setter_def Let_def astype_def np_array_def setTexture_3d_ok)

theorem array_setter_shape_witness:
  "length (shape (array obj123)) = 3 \<and> shape field321 \<noteq> shape (array obj123) \<and>
   fst (array_setter field321 (obj123, world0)) \<noteq> None \<and>
   array_setter field321 (obj123, world0) =
     (Some (ValueError (ShapeMismatch [1, 2, 3] [3, 2, 1])), obj123, world0) \<and>
   shape field123b = shape (array obj123) \<and>
   fst (array_setter field123b (obj123, world0)) = None"
proof -
  have h: "length (shape (array obj123)) = 3" by (simp add: obj123_def)
  have a: "shape field321 \<noteq> shape (array obj123)" "shape (array obj123) = [1, 2, 3]"
    "shape field321 = [3, 2, 1]" "shape field123b = shape (array obj123)"
    by (simp_all add: obj123_def field321_def field123b_def)
  show ?thesis
    using h a array_setter_shape [OF h, of field321 world0]
      array_setter_shape [OF h, of field123b world0]
    by simp
qed

section \<open>Constructions that raise after the dimension check\<close>

text \<open>
  The base class itself cannot be constructed, and a 3D array without samples is
  refused by the minimum reduction when no lower colour bound is given.
\<close>

lemma init_abstract:
  assumes "length (shape a) = 3" and "data a \<noteq> []" and "base_model D = base_model_abstract"
  shows "fst (init D a off xs0 ys0 zs0 lo0 hi0 c w) = Inl NotImplementedError"
proof -
  let ?a = "np_array_dtype Float32 a"
  have d: "data ?a \<noteq> []" and s: "shape ?a = shape a"
    using assms(2) by (simp_all add: np_array_dtype_def)
  obtain m where mn: "np_min ?a = Inr m" using np_min_nonempty [OF d] by blast
  obtain n where mx: "np_max ?a = Inr n" using np_max_nonempty [OF d] by blast
  show ?thesis
    using assms(1,3) s mn mx
    by (cases lo0; cases hi0) (simp_all add: init_def Let_def base_model_abstract_def)
qed

lemma init_no_samples:
  assumes "length (shape a) = 3" and "data a = []"
  shows "fst (init D a off xs0 ys0 zs0 None hi0 c w) = Inl (ValueError ZeroSizeReduction)"
  using assms by (simp add: init_def Let_def np_min_def np_array_dtype_def)

section \<open>Conversions that do not keep the value\<close>

text \<open>
  Conversions that do not keep the value: a sample beyond the \<open>float32\<close> range is
  stored as an infinity, a NaN stays NaN, and the default bounds follow the stored
  samples.
\<close>

lemma conversion_overflow:
  "data (np_array_dtype Float32
           \<lparr>dtype = Float64, shape = [1, 1, 3], data = [Finite (10 ^ 39), Finite 0, NaN]\<rparr>)
     = [PosInf, Finite 0, NaN]"
  "np_max \<lparr>dtype = Float32, shape = [1, 1, 2], data = [PosInf, Finite 0]\<rparr> = Inr PosInf"
  "np_min \<lparr>dtype = Float32, shape = [1, 1, 3], data = [PosInf, Finite 0, NaN]\<rparr> = Inr NaN"
  by (simp_all add: np_array_dtype_def np_max_def np_min_def fmax2_def fmin2_def
      round32_exact float_eval)

section \<open>Texture upload\<close>

lemma createTexture_fresh:
  assumes "tex obj = - 1"
  shows "\<exists>w'. createTexture (obj, w) = (obj\<lparr>tex := int (Suc (gl_names w))\<rparr>, w') \<and>
           tex_parameter w' (int (Suc (gl_names w))) GL_TEXTURE_WRAP_S = Some GL_CLAMP_TO_EDGE \<and>
           tex_parameter w' (int (Suc (gl_names w))) GL_TEXTURE_WRAP_T = Some GL_CLAMP_TO_EDGE \<and>
           tex_parameter w' (int (Suc (gl_names w))) GL_TEXTURE_MAG_FILTER = Some GL_NEAREST \<and>
           tex_parameter w' (int (Suc (gl_names w))) GL_TEXTURE_MIN_FILTER = Some GL_NEAREST \<and>
           tex_parameter w' (int (Suc (gl_names w))) GL_TEXTURE_WRAP_R =
             tex_parameter w (int (Suc (gl_names w))) GL_TEXTURE_WRAP_R"
  using assms by (simp add: createTexture_def Let_def gl_defs)

lemma createTexture_unset:
  assumes "tex obj = - 1"
  shows "\<exists>t w'. createTexture (obj, w) = (obj\<lparr>tex := t\<rparr>, w') \<and> t \<noteq> - 1 \<and>
           tex_parameter w' t GL_TEXTURE_WRAP_S = Some GL_CLAMP_TO_EDGE \<and>
           tex_parameter w' t GL_TEXTURE_WRAP_T = Some GL_CLAMP_TO_EDGE \<and>
           tex_parameter w' t GL_TEXTURE_MAG_FILTER = Some GL_NEAREST \<and>
           tex_parameter w' t GL_TEXTURE_MIN_FILTER = Some GL_NEAREST \<and>
           tex_parameter w' t GL_TEXTURE_WRAP_R = tex_parameter w t GL_TEXTURE_WRAP_R"
proof -
  have "int (Suc (gl_names w)) \<noteq> - 1" by simp
  with createTexture_fresh [OF assms, of w] show ?thesis by blast
qed

lemma upload_image:
  "tex_image (glTexImage3D wd h d px (glBindTexture GL_TEXTURE_3D t w)) t = Some (wd, h, d, px)"
  by (simp add: gl_defs Let_def)

lemma upload_parameters:
  "tex_parameter (glTexImage3D wd h d px (glBindTexture GL_TEXTURE_3D t w)) = tex_parameter w"
  by (simp add: gl_defs Let_def)

lemma upload_log:
  "gl_log (glTexImage3D wd h d px (glBindTexture GL_TEXTURE_3D t w)) =
     gl_log w @ [BindTexture GL_TEXTURE_3D t, TexImage3D wd h d px]"
  by (simp add: gl_defs Let_def)

lemma setTexture_set:
  assumes "tex obj \<noteq> - 1" and "shape a = [h, wd, d]"
  shows "\<exists>w'. setTexture a (obj, w) = (None, obj, w') \<and>
           tex_image w' (tex obj) = Some (wd, h, d, normalized (vmin obj) (vmax obj) a) \<and>
           tex_parameter w' = tex_parameter w \<and>
           gl_log w' = gl_log w @ [BindTexture GL_TEXTURE_3D (tex obj),
                                   TexImage3D wd h d (normalized (vmin obj) (vmax obj) a)]"
  using assms by (simp add: setTexture_def Let_def upload_image upload_parameters upload_log)

lemma setTexture_unset:
  assumes "tex obj = - 1" and "shape a = [h, wd, d]"
  shows "\<exists>t w'. setTexture a (obj, w) = (None, obj\<lparr>tex := t\<rparr>, w') \<and> t \<noteq> - 1 \<and>
           tex_image w' t = Some (wd, h, d, normalized (vmin obj) (vmax obj) a) \<and>
           last (gl_log w') = TexImage3D wd h d (normalized (vmin obj) (vmax obj) a) \<and>
           tex_parameter w' t GL_TEXTURE_WRAP_S = Some GL_CLAMP_TO_EDGE \<and>
           tex_parameter w' t GL_TEXTURE_WRAP_T = Some GL_CLAMP_TO_EDGE \<and>
           tex_parameter w' t GL_TEXTURE_MAG_FILTER = Some GL_NEAREST \<and>
           tex_parameter w' t GL_TEXTURE_MIN_FILTER = Some GL_NEAREST \<and>
           tex_parameter w' t GL_TEXTURE_WRAP_R = tex_parameter w t GL_TEXTURE_WRAP_R"
proof -
  from createTexture_unset [OF assms(1), of w] obtain t w1 where
    ct: "createTexture (obj, w) = (obj\<lparr>tex := t\<rparr>, w1)" and t: "t \<noteq> - 1"
    and p: "tex_parameter w1 t GL_TEXTURE_WRAP_S = Some GL_CLAMP_TO_EDGE"
      "tex_parameter w1 t GL_TEXTURE_WRAP_T = Some GL_CLAMP_TO_EDGE"
      "tex_parameter w1 t GL_TEXTURE_MAG_FILTER = Some GL_NEAREST"
      "tex_parameter w1 t GL_TEXTURE_MIN_FILTER = Some GL_NEAREST"
      "tex_parameter w1 t GL_TEXTURE_WRAP_R = tex_parameter w t GL_TEXTURE_WRAP_R"
    by blast
  let ?px = "normalized (vmin obj) (vmax obj) a"
  let ?w' = "glTexImage3D wd h d ?px (glBindTexture GL_TEXTURE_3D t w1)"
  have "setTexture a (obj, w) = (None, obj\<lparr>tex := t\<rparr>, ?w')"
    using assms ct by (simp add: setTexture_def Let_def)
  then have "setTexture a (obj, w) = (None, obj\<lparr>tex := t\<rparr>, ?w') \<and> t \<noteq> - 1 \<and>
           tex_image ?w' t = Some (wd, h, d, ?px) \<and>
           last (gl_log ?w') = TexImage3D wd h d ?px \<and>
           tex_parameter ?w' t GL_TEXTURE_WRAP_S = Some GL_CLAMP_TO_EDGE \<and>
           tex_parameter ?w' t GL_TEXTURE_WRAP_T = Some GL_CLAMP_TO_EDGE \<and>
           tex_parameter ?w' t GL_TEXTURE_MAG_FILTER = Some GL_NEAREST \<and>
           tex_parameter ?w' t GL_TEXTURE_MIN_FILTER = Some GL_NEAREST \<and>
           tex_parameter ?w' t GL_TEXTURE_WRAP_R = tex_parameter w t GL_TEXTURE_WRAP_R"
    using t p by (simp add: upload_image upload_parameters upload_log)
  then show ?thesis by blast
qed

lemma setTexture_any:
  assumes "shape a = [h, wd, d]"
  shows "\<exists>t w'. setTexture a (obj, w) = (None, obj\<lparr>tex := t\<rparr>, w') \<and>
           tex_image w' t = Some (wd, h, d, normalized (vmin obj) (vmax obj) a) \<and>
           last (gl_log w') = TexImage3D wd h d (normalized (vmin obj) (vmax obj) a)"
proof (cases "tex obj = - 1")
  case True
  from setTexture_unset [OF True assms, of w] show ?thesis by blast
next
  case False
  from setTexture_set [OF False assms, of w] obtain w' where
    "setTexture a (obj, w) = (None, obj, w')"
    "tex_image w' (tex obj) = Some (wd, h, d, normalized (vmin obj) (vmax obj) a)"
    "gl_log w' = gl_log w @ [BindTexture GL_TEXTURE_3D (tex obj),
                             TexImage3D wd h d (normalized (vmin obj) (vmax obj) a)]"
    by blast
  then have "setTexture a (obj, w) = (None, obj\<lparr>tex := tex obj\<rparr>, w') \<and>
     tex_image w' (tex obj) = Some (wd, h, d, normalized (vmin obj) (vmax obj) a) \<and>
     last (gl_log w') = TexImage3D wd h d (normalized (vmin obj) (vmax obj) a)" by simp
  then show ?thesis by blast
qed






section \<open>Buffers and initialisation on a fresh object\<close>

lemma createBuffers_obj:
  "\<exists>a b w'. createBuffers (obj, w) = (obj\<lparr>vao := a, vbo := b\<rparr>, w') \<and>
     tex_parameter w' = tex_parameter w \<and> tex_image w' = tex_image w"
  by (simp add: createBuffers_def Let_def gl_defs) blast

lemma setBuffers_obj:
  "\<exists>w'. setBuffers (obj, w) = (obj, w') \<and>
     tex_parameter w' = tex_parameter w \<and> tex_image w' = tex_image w"
  by (simp add: setBuffers_def Let_def gl_defs)

lemma initialize_fresh:
  assumes "\<not> initialized obj" and "tex obj = - 1" and "shape (array obj) = [s0, s1, s2]"
  shows "\<exists>a b t W. initialize D (obj, w) =
             (None, obj\<lparr>initialized := True, vao := a, vbo := b, tex := t\<rparr>, W) \<and>
           t \<noteq> - 1 \<and>
           tex_image W t = Some (s1, s0, s2, normalized (vmin obj) (vmax obj) (array obj)) \<and>
           tex_parameter W t GL_TEXTURE_WRAP_S = Some GL_CLAMP_TO_EDGE \<and>
           tex_parameter W t GL_TEXTURE_WRAP_T = Some GL_CLAMP_TO_EDGE \<and>
           tex_parameter W t GL_TEXTURE_MAG_FILTER = Some GL_NEAREST \<and>
           tex_parameter W t GL_TEXTURE_MIN_FILTER = Some GL_NEAREST \<and>
           tex_parameter W t GL_TEXTURE_WRAP_R =
             tex_parameter (class_initialize D w) t GL_TEXTURE_WRAP_R"
proof -
  let ?w1 = "class_initialize D w"
  from createBuffers_obj [of obj ?w1] obtain a b w2 where
    cb: "createBuffers (obj, ?w1) = (obj\<lparr>vao := a, vbo := b\<rparr>, w2)"
    and p2: "tex_parameter w2 = tex_parameter ?w1" by blast
  let ?o2 = "obj\<lparr>vao := a, vbo := b\<rparr>"
  from setBuffers_obj [of ?o2 w2] obtain w3 where
    sb: "setBuffers (?o2, w2) = (?o2, w3)" and p3: "tex_parameter w3 = tex_parameter w2"
    by blast
  have t2: "tex ?o2 = - 1" and s2: "shape (array ?o2) = [s0, s1, s2]"
    using assms by simp_all
  from setTexture_unset [OF t2 s2, of w3] obtain t w4 where
    st: "setTexture (array ?o2) (?o2, w3) = (None, ?o2\<lparr>tex := t\<rparr>, w4)"
    and t: "t \<noteq> - 1"
    and im: "tex_image w4 t = Some (s1, s0, s2, normalized (vmin ?o2) (vmax ?o2) (array ?o2))"
    and p: "tex_parameter w4 t GL_TEXTURE_WRAP_S = Some GL_CLAMP_TO_EDGE"
      "tex_parameter w4 t GL_TEXTURE_WRAP_T = Some GL_CLAMP_TO_EDGE"
      "tex_parameter w4 t GL_TEXTURE_MAG_FILTER = Some GL_NEAREST"
      "tex_parameter w4 t GL_TEXTURE_MIN_FILTER = Some GL_NEAREST"
      "tex_parameter w4 t GL_TEXTURE_WRAP_R = tex_parameter w3 t GL_TEXTURE_WRAP_R"
    by blast
  define W where "W = snd (snd (initialize D (obj, w)))"
  have ini: "initialize D (obj, w) =
      (None, obj\<lparr>initialized := True, vao := a, vbo := b, tex := t\<rparr>, W)"
    and px: "tex_parameter W = tex_parameter w4" and ix: "tex_image W = tex_image w4"
    unfolding W_def using assms(1) cb sb st
    by (simp_all add: initialize_def Let_def emit_def)
  have "initialize D (obj, w) =
      (None, obj\<lparr>initialized := True, vao := a, vbo := b, tex := t\<rparr>, W) \<and>
           t \<noteq> - 1 \<and>
           tex_image W t = Some (s1, s0, s2, normalized (vmin obj) (vmax obj) (array obj)) \<and>
           tex_parameter W t GL_TEXTURE_WRAP_S = Some GL_CLAMP_TO_EDGE \<and>
           tex_parameter W t GL_TEXTURE_WRAP_T = Some GL_CLAMP_TO_EDGE \<and>
           tex_parameter W t GL_TEXTURE_MAG_FILTER = Some GL_NEAREST \<and>
           tex_parameter W t GL_TEXTURE_MIN_FILTER = Some GL_NEAREST \<and>
           tex_parameter W t GL_TEXTURE_WRAP_R = tex_parameter ?w1 t GL_TEXTURE_WRAP_R"
    using ini t im p px ix p2 p3 by simp
  then show ?thesis by blast
qed

text \<open>
  C2, as the code has it. When \<^verbatim>\<open>initialize()\<close> runs on an object whose texture is
  still unset, the texture it generates has clamp-to-edge wrapping on the S and T axes
  and nearest-neighbour filtering for magnification and minification, and its image is
  sized (width, height, depth) = (shape[1], shape[0], shape[2]). A field replacement on
  an initialized object with a texture uploads an image of that same size to the same
  texture and leaves every texture parameter as it was.
\<close>

theorem texture_configuration:
  "(\<not> initialized obj \<and> tex obj = - 1 \<and> shape (array obj) = [s0, s1, s2] \<longrightarrow>
      fst (initialize D (obj, w)) = None \<and>
      tex (result_obj (initialize D (obj, w))) \<noteq> - 1 \<and>
      tex_parameter (result_world (initialize D (obj, w)))
        (tex (result_obj (initialize D (obj, w)))) GL_TEXTURE_WRAP_S = Some GL_CLAMP_TO_EDGE \<and>
      tex_parameter (result_world (initialize D (obj, w)))
        (tex (result_obj (initialize D (obj, w)))) GL_TEXTURE_WRAP_T = Some GL_CLAMP_TO_EDGE \<and>
      tex_parameter (result_world (initialize D (obj, w)))
        (tex (result_obj (initialize D (obj, w)))) GL_TEXTURE_MAG_FILTER = Some GL_NEAREST \<and>
      tex_parameter (result_world (initialize D (obj, w)))
        (tex (result_obj (initialize D (obj, w)))) GL_TEXTURE_MIN_FILTER = Some GL_NEAREST \<and>
      image_size (result_world (initialize D (obj, w)))
        (tex (result_obj (initialize D (obj, w)))) = Some (s1, s0, s2)) \<and>
   (initialized obj \<and> tex obj \<noteq> - 1 \<and> shape (array obj) = [s0, s1, s2] \<and>
    shape new = shape (array obj) \<longrightarrow>
      fst (array_setter new (obj, w)) = None \<and>
      tex (result_obj (array_setter new (obj, w))) = tex obj \<and>
      tex_parameter (result_world (array_setter new (obj, w))) = tex_parameter w \<and>
      image_size (result_world (array_setter new (obj, w))) (tex obj) = Some (s1, s0, s2))"
proof (intro conjI impI)
  assume "\<not> initialized obj \<and> tex obj = - 1 \<and> shape (array obj) = [s0, s1, s2]"
  then have a: "\<not> initialized obj" "tex obj = - 1" "shape (array obj) = [s0, s1, s2]"
    by simp_all
  from initialize_fresh [OF a, of D w] obtain a b t W where
    ini: "initialize D (obj, w) =
            (None, obj\<lparr>initialized := True, vao := a, vbo := b, tex := t\<rparr>, W)"
    and f: "t \<noteq> - 1"
      "tex_image W t = Some (s1, s0, s2, normalized (vmin obj) (vmax obj) (array obj))"
      "tex_parameter W t GL_TEXTURE_WRAP_S = Some GL_CLAMP_TO_EDGE"
      "tex_parameter W t GL_TEXTURE_WRAP_T = Some GL_CLAMP_TO_EDGE"
      "tex_parameter W t GL_TEXTURE_MAG_FILTER = Some GL_NEAREST"
      "tex_parameter W t GL_TEXTURE_MIN_FILTER = Some GL_NEAREST"
    by blast
  have r: "result_obj (initialize D (obj, w)) =
             obj\<lparr>initialized := True, vao := a, vbo := b, tex := t\<rparr>"
    "result_world (initialize D (obj, w)) = W"
    using ini by (simp_all add: result_obj_def result_world_def)
  show "fst (initialize D (obj, w)) = None" using ini by simp
  show "tex (result_obj (initialize D (obj, w))) \<noteq> - 1" using r f by simp
  show "tex_parameter (result_world (initialize D (obj, w)))
        (tex (result_obj (initialize D (obj, w)))) GL_TEXTURE_WRAP_S = Some GL_CLAMP_TO_EDGE"
    using r f by simp
  show "tex_parameter (result_world (initialize D (obj, w)))
        (tex (result_obj (initialize D (obj, w)))) GL_TEXTURE_WRAP_T = Some GL_CLAMP_TO_EDGE"
    using r f by simp
  show "tex_parameter (result_world (initialize D (obj, w)))
        (tex (result_obj (initialize D (obj, w)))) GL_TEXTURE_MAG_FILTER = Some GL_NEAREST"
    using r f by simp
  show "tex_parameter (result_world (initialize D (obj, w)))
        (tex (result_obj (initialize D (obj, w)))) GL_TEXTURE_MIN_FILTER = Some GL_NEAREST"
    using r f by simp
  show "image_size (result_world (initialize D (obj, w)))
        (tex (result_obj (initialize D (obj, w)))) = Some (s1, s0, s2)"
    using r f by (simp add: image_size_def)
next
  assume "initialized obj \<and> tex obj \<noteq> - 1 \<and> shape (array obj) = [s0, s1, s2] \<and>
    shape new = shape (array obj)"
  then have a: "initialized obj" "tex obj \<noteq> - 1" "shape (array obj) = [s0, s1, s2]"
    "shape new = shape (array obj)" by simp_all
  let ?new = "astype (dtype (array obj)) (np_array new)"
  let ?o1 = "obj\<lparr>array := ?new\<rparr>"
  have sn: "shape ?new = [s0, s1, s2]" using a by (simp add: astype_def np_array_def)
  have t1: "tex ?o1 \<noteq> - 1" using a by simp
  from setTexture_set [OF t1 sn, of w] obtain w' where
    st: "setTexture ?new (?o1, w) = (None, ?o1, w')"
    and im: "tex_image w' (tex ?o1) = Some (s1, s0, s2, normalized (vmin ?o1) (vmax ?o1) ?new)"
    and p: "tex_parameter w' = tex_parameter w" by blast
  have as: "array_setter new (obj, w) = (None, ?o1, w')"
    using a sn st by (simp add: array_setter_def Let_def)
  show "fst (array_setter new (obj, w)) = None" using as by simp
  show "tex (result_obj (array_setter new (obj, w))) = tex obj"
    using as by (simp add: result_obj_def)
  show "tex_parameter (result_world (array_setter new (obj, w))) = tex_parameter w"
    using as p by (simp add: result_world_def)
  show "image_size (result_world (array_setter new (obj, w))) (tex obj) = Some (s1, s0, s2)"
    using as im by (simp add: result_world_def image_size_def)
qed

lemma ready123_facts:
  "fst ready123 = None \<and> initialized (result_obj ready123) \<and>
   tex (result_obj ready123) \<noteq> - 1 \<and>
   array (result_obj ready123) = array obj123 \<and>
   vmin (result_obj ready123) = NpFloat32 (Finite 10) \<and>
   vmax (result_obj ready123) = NpFloat32 (Finite 20) \<and>
   tex_parameter (result_world ready123) (tex (result_obj ready123)) GL_TEXTURE_WRAP_R = None \<and>
   image_size (result_world ready123) (tex (result_obj ready123)) = Some (2, 1, 3)"
proof -
  have a: "\<not> initialized obj123" "tex obj123 = - 1" "shape (array obj123) = [1, 2, 3]"
    by (simp_all add: obj123_def)
  from initialize_fresh [OF a, of example_deps world0] obtain a b t W where
    ini: "ready123 = (None, obj123\<lparr>initialized := True, vao := a, vbo := b, tex := t\<rparr>, W)"
    and f: "t \<noteq> - 1"
      "tex_image W t = Some (2, 1, 3, normalized (vmin obj123) (vmax obj123) (array obj123))"
      "tex_parameter W t GL_TEXTURE_WRAP_R =
         tex_parameter (class_initialize example_deps world0) t GL_TEXTURE_WRAP_R"
    unfolding ready123_def by blast
  have n: "tex_parameter (class_initialize example_deps world0) t GL_TEXTURE_WRAP_R = None"
    by (simp add: example_deps_def world0_def)
  have v: "vmin obj123 = NpFloat32 (Finite 10)" "vmax obj123 = NpFloat32 (Finite 20)"
    by (simp_all add: obj123_def)
  show ?thesis
    using f n v by (simp add: ini result_obj_def result_world_def image_size_def)
qed

theorem texture_configuration_witness:
  "\<not> initialized obj123 \<and> tex obj123 = - 1 \<and> shape (array obj123) = [1, 2, 3] \<and>
   fst ready123 = None \<and>
   tex_parameter (result_world ready123) (tex (result_obj ready123)) GL_TEXTURE_WRAP_S
     = Some GL_CLAMP_TO_EDGE \<and>
   tex_parameter (result_world ready123) (tex (result_obj ready123)) GL_TEXTURE_WRAP_T
     = Some GL_CLAMP_TO_EDGE \<and>
   tex_parameter (result_world ready123) (tex (result_obj ready123)) GL_TEXTURE_MAG_FILTER
     = Some GL_NEAREST \<and>
   tex_parameter (result_world ready123) (tex (result_obj ready123)) GL_TEXTURE_MIN_FILTER
     = Some GL_NEAREST \<and>
   image_size (result_world ready123) (tex (result_obj ready123)) = Some (2, 1, 3) \<and>
   initialized (result_obj ready123) \<and> tex (result_obj ready123) \<noteq> - 1 \<and>
   shape (array (result_obj ready123)) = [1, 2, 3] \<and>
   shape field123b = shape (array (result_obj ready123)) \<and>
   fst (array_setter field123b (result_obj ready123, result_world ready123)) = None \<and>
   tex_parameter (result_world
       (array_setter field123b (result_obj ready123, result_world ready123)))
     = tex_parameter (result_world ready123) \<and>
   image_size (result_world
       (array_setter field123b (result_obj ready123, result_world ready123)))
     (tex (result_obj ready123)) = Some (2, 1, 3)"
proof -
  have a: "\<not> initialized obj123" "tex obj123 = - 1" "shape (array obj123) = [1, 2, 3]"
    by (simp_all add: obj123_def)
  have b: "initialized (result_obj ready123)" "tex (result_obj ready123) \<noteq> - 1"
    "shape (array (result_obj ready123)) = [1, 2, 3]"
    "shape field123b = shape (array (result_obj ready123))"
    using ready123_facts a by (simp_all add: field123b_def)
  have p1: "fst ready123 = None \<and>
   tex_parameter (result_world ready123) (tex (result_obj ready123)) GL_TEXTURE_WRAP_S
     = Some GL_CLAMP_TO_EDGE \<and>
   tex_parameter (result_world ready123) (tex (result_obj ready123)) GL_TEXTURE_WRAP_T
     = Some GL_CLAMP_TO_EDGE \<and>
   tex_parameter (result_world ready123) (tex (result_obj ready123)) GL_TEXTURE_MAG_FILTER
     = Some GL_NEAREST \<and>
   tex_parameter (result_world ready123) (tex (result_obj ready123)) GL_TEXTURE_MIN_FILTER
     = Some GL_NEAREST \<and>
   image_size (result_world ready123) (tex (result_obj ready123)) = Some (2, 1, 3)"
    using a texture_configuration
      [where obj = obj123 and ?s0.0 = 1 and ?s1.0 = 2 and ?s2.0 = 3 and D = example_deps
         and w = world0]
    unfolding ready123_def by blast
  have p2: "fst (array_setter field123b (result_obj ready123, result_world ready123)) = None \<and>
   tex_parameter (result_world
       (array_setter field123b (result_obj ready123, result_world ready123)))
     = tex_parameter (result_world ready123) \<and>
   image_size (result_world
       (array_setter field123b (result_obj ready123, result_world ready123)))
     (tex (result_obj ready123)) = Some (2, 1, 3)"
    using b texture_configuration
      [where obj = "result_obj ready123" and ?s0.0 = 1 and ?s1.0 = 2 and ?s2.0 = 3
         and new = field123b and w = "result_world ready123"]
    by blast
  show ?thesis using a b p1 p2 by blast
qed

text \<open>
  C2, as the claim states it, fails on the object built from a field of shape
  \<open>(1, 2, 3)\<close>: after \<^verbatim>\<open>initialize()\<close> the wrapping of the third texture axis
  was never set, and the image is not sized \<open>(1, 2, 3)\<close>.
\<close>

theorem texture_claim_counterexample:
  "built123 = (Inr obj123, world0) \<and>
   ready123 = initialize example_deps (obj123, world0) \<and>
   shape (array (result_obj ready123)) = [1, 2, 3] \<and>
   tex_parameter (result_world ready123) (tex (result_obj ready123)) GL_TEXTURE_WRAP_R
     \<noteq> Some GL_CLAMP_TO_EDGE \<and>
   image_size (result_world ready123) (tex (result_obj ready123)) \<noteq> Some (1, 2, 3)"
proof -
  have "shape (array obj123) = [1, 2, 3]" by (simp add: obj123_def)
  then show ?thesis
    using ready123_facts built123_eq by (simp add: ready123_def)
qed

section \<open>Frame of a field replacement\<close>

text \<open>
  C5. A replacement by an array of the stored 3D shape returns normally and changes
  nothing of the object but the stored array, which becomes the new array converted
  to the stored element type: mesh, vertex array and buffer handles, extents, offset
  and colour window stay. On an initialized object the texture image is uploaded
  again, the stored array normalised with the window the object already had, as the
  last graphics call; with a texture already there the upload is the only graphics
  activity. On an object that is not initialized the world is untouched.
\<close>

theorem array_setter_frame:
  assumes "shape new = shape (array obj)" and "shape (array obj) = [s0, s1, s2]"
  shows "fst (array_setter new (obj, w)) = None \<and>
    array (result_obj (array_setter new (obj, w))) = astype (dtype (array obj)) new \<and>
    triangles (result_obj (array_setter new (obj, w))) = triangles obj \<and>
    vao (result_obj (array_setter new (obj, w))) = vao obj \<and>
    vbo (result_obj (array_setter new (obj, w))) = vbo obj \<and>
    x_size (result_obj (array_setter new (obj, w))) = x_size obj \<and>
    y_size (result_obj (array_setter new (obj, w))) = y_size obj \<and>
    z_size (result_obj (array_setter new (obj, w))) = z_size obj \<and>
    offset (result_obj (array_setter new (obj, w))) = offset obj \<and>
    vmin (result_obj (array_setter new (obj, w))) = vmin obj \<and>
    vmax (result_obj (array_setter new (obj, w))) = vmax obj \<and>
    (initialized obj \<longrightarrow>
       image_pixels (result_world (array_setter new (obj, w)))
         (tex (result_obj (array_setter new (obj, w))))
           = Some (normalized (vmin obj) (vmax obj) (astype (dtype (array obj)) new)) \<and>
       last (gl_log (result_world (array_setter new (obj, w))))
           = TexImage3D s1 s0 s2
               (normalized (vmin obj) (vmax obj) (astype (dtype (array obj)) new))) \<and>
    (initialized obj \<and> tex obj \<noteq> - 1 \<longrightarrow>
       gl_log (result_world (array_setter new (obj, w))) =
         gl_log w @ [BindTexture GL_TEXTURE_3D (tex obj),
                     TexImage3D s1 s0 s2
                       (normalized (vmin obj) (vmax obj) (astype (dtype (array obj)) new))]) \<and>
    (\<not> initialized obj \<longrightarrow> result_world (array_setter new (obj, w)) = w)"
proof -
  let ?new = "astype (dtype (array obj)) (np_array new)"
  let ?o1 = "obj\<lparr>array := ?new\<rparr>"
  let ?px = "normalized (vmin obj) (vmax obj) (astype (dtype (array obj)) new)"
  have sn: "shape ?new = [s0, s1, s2]" using assms by (simp add: astype_def np_array_def)
  have nn: "?new = astype (dtype (array obj)) new" by (simp add: np_array_def)
  have px: "normalized (vmin ?o1) (vmax ?o1) ?new = ?px" by (simp add: np_array_def)
  show ?thesis
  proof (cases "initialized obj")
    case False
    then have "array_setter new (obj, w) = (None, ?o1, w)"
      using sn assms by (simp add: array_setter_def Let_def)
    then show ?thesis using False nn by (simp add: result_obj_def result_world_def)
  next
    case True
    from setTexture_any [OF sn, of ?o1 w] obtain t w' where
      st: "setTexture ?new (?o1, w) = (None, ?o1\<lparr>tex := t\<rparr>, w')"
      and im: "tex_image w' t = Some (s1, s0, s2, ?px)"
      and lg: "last (gl_log w') = TexImage3D s1 s0 s2 ?px"
      unfolding px by blast
    have as: "array_setter new (obj, w) = (None, ?o1\<lparr>tex := t\<rparr>, w')"
      using True sn assms st by (simp add: array_setter_def Let_def)
    have log: "gl_log w' = gl_log w @ [BindTexture GL_TEXTURE_3D (tex obj), TexImage3D s1 s0 s2 ?px]"
      if "tex obj \<noteq> - 1"
    proof -
      from that have "tex ?o1 \<noteq> - 1" by simp
      from setTexture_set [OF this sn, of w] st show ?thesis unfolding px by auto
    qed
    show ?thesis
      using True as im lg log nn
      by (simp add: result_obj_def result_world_def image_pixels_def)
  qed
qed

theorem array_setter_frame_witness:
  "shape field123b = shape (array obj123) \<and> shape (array obj123) = [1, 2, 3] \<and>
   \<not> initialized obj123 \<and>
   fst (array_setter field123b (obj123, world0)) = None \<and>
   result_world (array_setter field123b (obj123, world0)) = world0 \<and>
   triangles (result_obj (array_setter field123b (obj123, world0))) = triangles obj123 \<and>
   shape field123b = shape (array (result_obj ready123)) \<and>
   shape (array (result_obj ready123)) = [1, 2, 3] \<and>
   initialized (result_obj ready123) \<and> tex (result_obj ready123) \<noteq> - 1 \<and>
   vao (result_obj (array_setter field123b (result_obj ready123, result_world ready123)))
     = vao (result_obj ready123) \<and>
   image_pixels
     (result_world (array_setter field123b (result_obj ready123, result_world ready123)))
     (tex (result_obj (array_setter field123b (result_obj ready123, result_world ready123))))
     = Some [Finite (- (1/2)), Finite 0, Finite (1/2), Finite 1, Finite (3/2), Finite 2] \<and>
   gl_log (result_world (array_setter field123b (result_obj ready123, result_world ready123)))
     = gl_log (result_world ready123) @
         [BindTexture GL_TEXTURE_3D (tex (result_obj ready123)),
          TexImage3D 2 1 3
            [Finite (- (1/2)), Finite 0, Finite (1/2), Finite 1, Finite (3/2), Finite 2]]"
proof -
  have a: "shape field123b = shape (array obj123)" "shape (array obj123) = [1, 2, 3]"
    "\<not> initialized obj123"
    by (simp_all add: obj123_def field123b_def)
  have b: "shape field123b = shape (array (result_obj ready123))"
    "shape (array (result_obj ready123)) = [1, 2, 3]"
    "initialized (result_obj ready123)" "tex (result_obj ready123) \<noteq> - 1"
    using ready123_facts a by simp_all
  have dt: "dtype (array (result_obj ready123)) = Float32"
    using ready123_facts by (simp add: obj123_def)
  have cv: "astype Float32 field123b =
      \<lparr>dtype = Float32, shape = [1, 2, 3],
       data = [Finite 5, Finite 10, Finite 15, Finite 20, Finite 25, Finite 30]\<rparr>"
    by (simp add: astype_def field123b_def round32_exact)
  have n: "normalized (vmin (result_obj ready123)) (vmax (result_obj ready123))
             (astype (dtype (array (result_obj ready123))) field123b) =
     [Finite (- (1/2)), Finite 0, Finite (1/2), Finite 1, Finite (3/2), Finite 2]"
    using ready123_facts unfolding dt cv
    by (simp add: normalized_def np_array_def fsub_def round32_exact round32_more)
  show ?thesis
    using a b array_setter_frame [OF a(1) a(2), of world0]
      array_setter_frame [OF b(1) b(2), of "result_world ready123"]
    unfolding n by simp
qed

section \<open>Mesh\<close>

text \<open>
  What the constructor computes for every vertex of the base model: the offset is
  added before the multiplication by the extent.
\<close>

lemma init_mesh:
  assumes "init D a off xs0 ys0 zs0 lo0 hi0 c w = (Inr obj, w')"
  shows "\<exists>uvw. base_model D = Inr uvw \<and>
           triangles obj =
             map (\<lambda>(u, v, w).
                    map (cast round32)
                      [position u (fst off) (x_size obj),
                       position v (fst (snd off)) (y_size obj),
                       position w (snd (snd off)) (z_size obj),
                       Finite u, Finite v, Finite w]) uvw"
proof -
  obtain ox oy oz where off: "off = (ox, oy, oz)" by (cases off) auto
  have row: "mesh_row (ox, oy, oz) x y z =
        (\<lambda>(u, v, w). map (cast round32)
           [position u ox x, position v oy y, position w oz z, Finite u, Finite v, Finite w])"
    for x y z by (rule ext) auto
  show ?thesis
    using assms unfolding off
    by (auto simp: init_def Let_def row split: if_splits sum.splits)
qed

lemma position_exact:
  "position c off ext =
     fmul round64 (fadd round64 (round64 (c - 1/2)) (Finite off)) (Finite ext)"
  by (simp add: position_def fsub_def)

lemma init_mesh_444:
  "map_option triangles
     (constructed (init example_deps field444 (0, 0, 0) None None None None None None world0))
   = Some [[Finite (- 2), Finite (- 2), Finite (- 2), Finite 0, Finite 0, Finite 0],
           [Finite 0, Finite 0, Finite 0, Finite (1/2), Finite (1/2), Finite (1/2)],
           [Finite 2, Finite 2, Finite 2, Finite 1, Finite 1, Finite 1]]"
proof -
  let ?a = "np_array_dtype Float32 field444"
  have "py_max [4, 4, 4] = 4" by simp
  moreover have d: "data ?a = replicate 64 (Finite 3)" "shape ?a = [4, 4, 4]"
    by (simp_all add: np_array_dtype_def field444_def round32_exact)
  moreover have "np_min ?a = Inr (Finite 3) \<and> np_max ?a = Inr (Finite 3)"
    by (rule np_min_max_const) (simp_all add: d)
  ultimately show ?thesis
    by (simp add: init_def Let_def constructed_def example_deps_def position_exact
        round32_exact round64_exact)
qed

text \<open>
  C1. On a field of shape \<open>(2, 2, 2)\<close> with default extents and offset \<open>(1, 0, 0)\<close>,
  the vertices of the base model \<open>(0,0,0)\<close>, \<open>(1/2,1/2,1/2)\<close>, \<open>(1,1,1)\<close> get the
  x positions 1, 2 and 3. The claim's \<open>(c - 0.5) * size + offset\<close> gives 0, 1 and 2:
  the centre of the box would be at the offset, as the constructor's docstring says.
\<close>

theorem mesh_offset_is_scaled:
  "map_option triangles
     (constructed (init example_deps field222 (1, 0, 0) None None None None None None world0))
   = Some [[Finite 1, Finite (- 1), Finite (- 1), Finite 0, Finite 0, Finite 0],
           [Finite 2, Finite 0, Finite 0, Finite (1/2), Finite (1/2), Finite (1/2)],
           [Finite 3, Finite 1, Finite 1, Finite 1, Finite 1, Finite 1]] \<and>
   [(0 - 1/2) * 2 + 1, (1/2 - 1/2) * 2 + 1, (1 - 1/2) * 2 + 1] = [0, 1, (2::real)]"
proof -
  let ?a = "np_array_dtype Float32 field222"
  have "py_max [2, 2, 2] = 2" by simp
  moreover have d: "data ?a = map Finite [0, 1, 2, 3, 4, 5, 6, 7]" "shape ?a = [2, 2, 2]"
    by (simp_all add: np_array_dtype_def field222_def round32_exact)
  moreover have "np_min ?a = Inr (Finite 0)" "np_max ?a = Inr (Finite 7)"
    by (simp_all add: np_min_def np_max_def d fmin2_def fmax2_def)
  ultimately show ?thesis
    by (simp add: init_def Let_def constructed_def example_deps_def position_exact
        round32_exact round64_exact)
qed

section \<open>The stored field over the life of an object\<close>

lemma createTexture_array: "array (fst (createTexture s)) = array (fst s)"
  by (cases s) (simp add: createTexture_def Let_def gl_defs split: prod.splits)

lemma setTexture_array: "array (fst (snd (setTexture a s))) = array (fst s)"
proof (cases s)
  case (Pair obj w)
  have "array (fst (if tex obj = - 1 then createTexture (obj, w) else (obj, w))) = array obj"
    using createTexture_array [of "(obj, w)"] by simp
  then show ?thesis
    using Pair by (auto simp: setTexture_def Let_def split: prod.splits list.splits)
qed

lemma createBuffers_array: "array (fst (createBuffers s)) = array (fst s)"
  by (cases s) (simp add: createBuffers_def Let_def gl_defs split: prod.splits)

lemma setBuffers_array: "array (fst (setBuffers s)) = array (fst s)"
  by (cases s) (simp add: setBuffers_def Let_def)

lemma initialize_array: "array (fst (snd (initialize D s))) = array (fst s)"
proof (cases s)
  case (Pair obj w)
  let ?s3 = "setBuffers (createBuffers (obj, class_initialize D w))"
  have a3: "array (fst ?s3) = array obj"
    by (simp add: setBuffers_array createBuffers_array)
  have "array (fst (snd (setTexture (array (fst ?s3)) ?s3))) = array obj"
    using setTexture_array [of "array (fst ?s3)" ?s3] a3 by simp
  then show ?thesis
    using Pair
    by (cases "initialized obj")
       (auto simp: initialize_def Let_def split: prod.splits option.splits)
qed

lemma array_setter_array:
  "dtype (array (fst (snd (array_setter a s)))) = dtype (array (fst s)) \<and>
   shape (array (fst (snd (array_setter a s)))) = shape (array (fst s))"
proof (cases s)
  case (Pair obj w)
  let ?new = "astype (dtype (array obj)) (np_array a)"
  have "array (fst (snd (setTexture ?new (obj\<lparr>array := ?new\<rparr>, w)))) = ?new"
    using setTexture_array [of ?new "(obj\<lparr>array := ?new\<rparr>, w)"] by simp
  then show ?thesis
    using Pair by (auto simp: array_setter_def Let_def astype_def np_array_def)
qed

lemma render_array: "array (fst (render D s)) = array (fst s)"
  by (cases s) (simp add: render_def Let_def)

lemma step_array:
  "dtype (array (fst (step D x s))) = dtype (array (fst s)) \<and>
   shape (array (fst (step D x s))) = shape (array (fst s))"
  by (cases x)
     (simp_all add: initialize_array array_setter_array render_array createTexture_array
        setTexture_array setBuffers_array createBuffers_array)

lemma run_array:
  "dtype (array (fst (run D xs s))) = dtype (array (fst s)) \<and>
   shape (array (fst (run D xs s))) = shape (array (fst s))"
proof (induction xs arbitrary: s)
  case Nil
  show ?case by simp
next
  case (Cons x xs)
  show ?case using Cons.IH [of "step D x s"] step_array [of D x s] by simp
qed

lemma init_array:
  assumes "init D a off xs0 ys0 zs0 lo0 hi0 c w = (Inr obj, w')"
  shows "array obj = np_array_dtype Float32 a \<and> length (shape a) = 3"
  using assms
  by (auto simp: init_def Let_def np_array_dtype_def split: if_splits sum.splits)

text \<open>
  C10. Whatever the element type of the array given to the constructor, the field
  stored by a constructed object is a float32 array of 3 dimensions with the shape of
  the input, and stays so under every sequence of method calls and attribute
  assignments, including replacements by arrays of another element type or shape and
  calls that raise.
\<close>

theorem stored_field_invariant:
  assumes "init D a off xs0 ys0 zs0 lo0 hi0 c w = (Inr obj, w')"
  shows "dtype (array (fst (run D ops (obj, w')))) = Float32 \<and>
         length (shape (array (fst (run D ops (obj, w'))))) = 3 \<and>
         shape (array (fst (run D ops (obj, w')))) = shape a"
  using init_array [OF assms] run_array [of D ops "(obj, w')"]
  by (simp add: np_array_dtype_def)

theorem stored_field_invariant_witness:
  "init example_deps field123 (0, 0, 0) None None None None None None world0
     = (Inr obj123, world0) \<and>
   dtype field123 = Float64 \<and> dtype field123b = Int64 \<and>
   dtype (array (fst (run example_deps
       [SetArray field123b, Initialize, SetArray field321,
        SetVmax (PyFloat (Finite 40)), SetArray field123b, Render]
       (obj123, world0)))) = Float32 \<and>
   shape (array (fst (run example_deps
       [SetArray field123b, Initialize, SetArray field321,
        SetVmax (PyFloat (Finite 40)), SetArray field123b, Render]
       (obj123, world0)))) = [1, 2, 3]"
proof -
  have h: "init example_deps field123 (0, 0, 0) None None None None None None world0
     = (Inr obj123, world0)"
    using built123_eq by (simp add: built123_def)
  have d: "dtype field123 = Float64" "dtype field123b = Int64" "shape field123 = [1, 2, 3]"
    by (simp_all add: field123_def field123b_def)
  show ?thesis
    using h d stored_field_invariant [OF h,
      of "[SetArray field123b, Initialize, SetArray field321,
           SetVmax (PyFloat (Finite 40)), SetArray field123b, Render]"]
    by simp
qed

end
